theory Spec2Isabelle
  imports Complex_Main "HOL-Library.Sublist"
begin

section \<open>JavaScript values and the operations the components apply to them\<close>

text \<open>
  The components are TypeScript, but the data they render is whatever JSON the backend
  returns: the declared interfaces are not checked at run time. A response is therefore a
  JSON value, and every property read, method call and truthiness test of the source is an
  operation on such a value. An exception (\<^verbatim>\<open>TypeError\<close>, or the \<^verbatim>\<open>Error\<close> the query
  function throws) is the left injection of a sum.
\<close>

datatype error = TypeError string | Error string

fun message :: "error \<Rightarrow> string" where
  "message (TypeError m) = m"
| "message (Error m) = m"

datatype jsval =
    JUndefined
  | JNull
  | JBool bool
  | JNum real
  | JStr string
  | JArr "jsval list"
  | JObj "(string \<times> jsval) list"

text \<open>\<^verbatim>\<open>!!v\<close>: the falsy values are undefined, null, false, 0 and the empty string.\<close>

fun truthy :: "jsval \<Rightarrow> bool" where
  "truthy JUndefined = False"
| "truthy JNull = False"
| "truthy (JBool b) = b"
| "truthy (JNum n) = (n \<noteq> 0)"
| "truthy (JStr s) = (s \<noteq> [])"
| "truthy (JArr xs) = True"
| "truthy (JObj kvs) = True"

fun nullish :: "jsval \<Rightarrow> bool" where
  "nullish JUndefined = True"
| "nullish JNull = True"
| "nullish v = False"

text \<open>\<^verbatim>\<open>a || b\<close>\<close>

definition js_or :: "jsval \<Rightarrow> jsval \<Rightarrow> jsval" where
  "js_or a b = (if truthy a then a else b)"

text \<open>
  Reading a property of a value that is neither undefined nor null. An object is the list
  of its own properties as parsed (keys distinct); an array and a string have \<^verbatim>\<open>length\<close>.
  The components read only the names \<^verbatim>\<open>skills_gap\<close>, \<^verbatim>\<open>learning_path\<close>,
  \<^verbatim>\<open>certifications\<close>, \<^verbatim>\<open>projects\<close>, \<^verbatim>\<open>title\<close>, \<^verbatim>\<open>duration\<close>, \<^verbatim>\<open>tasks\<close>,
  \<^verbatim>\<open>description\<close>, \<^verbatim>\<open>length\<close> and \<^verbatim>\<open>id\<close> this way, none of which a prototype of a
  JSON value defines besides \<^verbatim>\<open>length\<close>; methods (\<^verbatim>\<open>map\<close>, \<^verbatim>\<open>startsWith\<close>) have
  their own operations below.
\<close>

fun get_prop :: "jsval \<Rightarrow> string \<Rightarrow> jsval" where
  "get_prop (JObj kvs) k = (case map_of kvs k of None \<Rightarrow> JUndefined | Some v \<Rightarrow> v)"
| "get_prop (JArr xs) k = (if k = ''length'' then JNum (real (length xs)) else JUndefined)"
| "get_prop (JStr s) k = (if k = ''length'' then JNum (real (length s)) else JUndefined)"
| "get_prop v k = JUndefined"

text \<open>\<^verbatim>\<open>v.k\<close>: a TypeError on undefined and null.\<close>

definition js_member :: "jsval \<Rightarrow> string \<Rightarrow> error + jsval" where
  "js_member v k =
     (if nullish v then Inl (TypeError (''Cannot read properties of undefined or null, reading '' @ k))
      else Inr (get_prop v k))"

text \<open>\<^verbatim>\<open>v?.k\<close>: undefined on undefined and null.\<close>

definition opt_member :: "jsval \<Rightarrow> string \<Rightarrow> jsval" where
  "opt_member v k = (if nullish v then JUndefined else get_prop v k)"

text \<open>\<^verbatim>\<open>Array.isArray(v)\<close>\<close>

fun isArray :: "jsval \<Rightarrow> bool" where
  "isArray (JArr xs) = True"
| "isArray v = False"

text \<open>
  \<^verbatim>\<open>v.length\<close> as a number of entries. The source reads it only behind
  \<^verbatim>\<open>Array.isArray(v) &&\<close>, so the last equation is never reached from the components.
\<close>

fun js_length :: "jsval \<Rightarrow> nat" where
  "js_length (JArr xs) = length xs"
| "js_length (JStr s) = length s"
| "js_length v = 0"

text \<open>
  \<^verbatim>\<open>v.map((x, index) => ...)\<close>: the callback runs on every entry in order with its index,
  and an exception of the callback leaves the loop. On a value that is not an array the
  property \<^verbatim>\<open>map\<close> is not a function (or, on undefined and null, cannot be read).
\<close>

fun map_index :: "('a \<Rightarrow> nat \<Rightarrow> error + 'b) \<Rightarrow> nat \<Rightarrow> 'a list \<Rightarrow> error + 'b list" where
  "map_index f i [] = Inr []"
| "map_index f i (x # xs) =
     (case f x i of
        Inl e \<Rightarrow> Inl e
      | Inr y \<Rightarrow> (case map_index f (Suc i) xs of Inl e \<Rightarrow> Inl e | Inr ys \<Rightarrow> Inr (y # ys)))"

definition array_map :: "jsval \<Rightarrow> (jsval \<Rightarrow> nat \<Rightarrow> error + 'b) \<Rightarrow> error + 'b list" where
  "array_map v f =
     (case v of
        JArr xs \<Rightarrow> map_index f 0 xs
      | JUndefined \<Rightarrow> Inl (TypeError ''Cannot read properties of undefined, reading map'')
      | JNull \<Rightarrow> Inl (TypeError ''Cannot read properties of null, reading map'')
      | _ \<Rightarrow> Inl (TypeError ''map is not a function''))"

text \<open>
  \<^verbatim>\<open>skill?.startsWith?.(p)\<close>. On a string it is the prefix test. The first \<^verbatim>\<open>?.\<close>
  gives undefined on undefined and null; the second gives undefined when the value has no
  property \<^verbatim>\<open>startsWith\<close> (numbers, booleans, arrays, and objects without that key or with
  null under it). An object that carries any other JSON value under the key
  \<^verbatim>\<open>startsWith\<close> makes the call a TypeError: that value is not a function.
\<close>

definition startsWith_opt :: "jsval \<Rightarrow> string \<Rightarrow> error + jsval" where
  "startsWith_opt skill p =
     (case skill of
        JStr s \<Rightarrow> Inr (JBool (prefix p s))
      | JObj kvs \<Rightarrow>
          (if nullish (get_prop skill ''startsWith'') then Inr JUndefined
           else Inl (TypeError ''skill?.startsWith is not a function''))
      | _ \<Rightarrow> Inr JUndefined)"

text \<open>The decimal numeral of an index, for the template literals \<^verbatim>\<open>`Phase ${index + 1}`\<close>.\<close>

definition digit :: "nat \<Rightarrow> char" where
  "digit d = ''0123456789'' ! d"

fun show_nat :: "nat \<Rightarrow> string" where
  "show_nat n = (if n < 10 then [digit n] else show_nat (n div 10) @ [digit (n mod 10)])"

section \<open>JavaScript numbers\<close>

text \<open>
  A number of the program is an IEEE 754 double: a finite value (a rational that a double
  represents), an infinity or NaN. The sign of zero is not kept. \<open>to_double\<close> rounds a
  rational to the nearest double, ties to the even mantissa: with the exponent \<open>e\<close> of the
  value (not below -1022, where the subnormal numbers begin) the doubles around it are the
  multiples of \<open>2 ^ (e - 52)\<close>; a result of \<open>2 ^ 1024\<close> or more is an infinity. It is
  how a numeral of a JSON body becomes a number and how the exact result of an arithmetic
  operation becomes its result.
\<close>

datatype number = Fin rat | PosInf | NegInf | NaN

fun bit_length :: "nat \<Rightarrow> nat" where
  "bit_length n = (if n = 0 then 0 else Suc (bit_length (n div 2)))"

definition pow2 :: "int \<Rightarrow> rat" where
  "pow2 k = (if 0 \<le> k then 2 ^ nat k else 1 / 2 ^ nat (- k))"

text \<open>For \<open>0 < a\<close>, the exponent \<open>e\<close> with \<open>2 ^ e \<le> a < 2 ^ (e + 1)\<close>.\<close>

definition floor_log2 :: "rat \<Rightarrow> int" where
  "floor_log2 a =
     (if 1 \<le> a then int (bit_length (nat \<lfloor>a\<rfloor>)) - 1
      else - int (bit_length (nat (\<lceil>1 / a\<rceil> - 1))))"

definition round_half_even :: "rat \<Rightarrow> int" where
  "round_half_even t =
     (let m = \<lfloor>t\<rfloor>; f = t - of_int m
      in if f < 1 / 2 then m else if 1 / 2 < f then m + 1 else if even m then m else m + 1)"

definition to_double :: "rat \<Rightarrow> number" where
  "to_double x =
     (if x = 0 then Fin 0
      else let a = \<bar>x\<bar>;
               e = max (floor_log2 a) (- 1022);
               q = pow2 (e - 52);
               m = round_half_even (a / q)
           in if 1023 < e \<or> (e = 1023 \<and> m = 2 ^ 53) then (if x < 0 then NegInf else PosInf)
              else Fin (if x < 0 then - (of_int m * q) else of_int m * q))"

fun negative :: "number \<Rightarrow> bool" where
  "negative (Fin a) = (a < 0)"
| "negative NegInf = True"
| "negative x = False"

text \<open>
  \<^verbatim>\<open>x * y\<close> on numbers: the rounded product of two finite values; NaN when an operand is
  NaN or the product is zero times an infinity; otherwise the infinity of the product's sign.
\<close>

definition js_mul :: "number \<Rightarrow> number \<Rightarrow> number" where
  "js_mul x y =
     (case (x, y) of
        (Fin a, Fin b) \<Rightarrow> to_double (a * b)
      | (NaN, _) \<Rightarrow> NaN
      | (_, NaN) \<Rightarrow> NaN
      | _ \<Rightarrow> if x = Fin 0 \<or> y = Fin 0 then NaN
             else if negative x = negative y then PosInf else NegInf)"

section \<open>Element trees\<close>

text \<open>
  What a component function returns: a tree of elements. An element has the name of its
  component, the properties that decide behaviour or appearance in the claims at hand (text
  colour, variant, \<^verbatim>\<open>disabled\<close>, \<^verbatim>\<open>value\<close>, the handler of a click), and children. The
  purely geometric \<^verbatim>\<open>sx\<close> entries (padding, gap, borders) and React keys are left out.
  A child \<^verbatim>\<open>{expr}\<close> carries the value of the expression; static text is a string child.
\<close>

datatype action =
    OnClose
  | Reload
  | SaveRoadmap
  | HandleUpload
  | SetSelectedJob string
  | SetFile

datatype attr = PStr string | PBool bool | PNum number | PAct action

datatype view = Elem string "(string \<times> attr) list" "view list" | Child jsval

definition text_of :: "string \<Rightarrow> view" where
  "text_of s = Child (JStr s)"

text \<open>The placeholder of an empty section: \<^verbatim>\<open><Typography variant="body2" color="text.secondary">\<close>.\<close>

definition placeholder :: "string \<Rightarrow> view" where
  "placeholder s =
     Elem ''Typography'' [(''variant'', PStr ''body2''), (''color'', PStr ''text.secondary'')] [text_of s]"

text \<open>
  \<^verbatim>\<open>{cond && <X/>}\<close> with a boolean condition: the element, or the child \<^verbatim>\<open>false\<close>.
\<close>

definition js_and :: "bool \<Rightarrow> view \<Rightarrow> view" where
  "js_and cond v = (if cond then v else Child (JBool False))"

text \<open>
  What the UI framework (React, a dependency outside the sources) does with the tree a
  component returns. A child that is a string or a number is displayed as text; undefined,
  null and booleans display nothing; an array displays its entries; an object that is not an
  element is refused with the error "Objects are not valid as a React child", which leaves
  the whole rendering.
\<close>

fun valid_child :: "jsval \<Rightarrow> bool" where
  "valid_child (JObj kvs) = False"
| "valid_child (JArr xs) = list_all valid_child xs"
| "valid_child v = True"

fun renderable :: "view \<Rightarrow> bool" where
  "renderable (Elem n ps cs) = list_all renderable cs"
| "renderable (Child v) = valid_child v"

definition react_render :: "error + view \<Rightarrow> error + view" where
  "react_render returned =
     (case returned of
        Inl e \<Rightarrow> Inl e
      | Inr v \<Rightarrow>
          if renderable v then Inr v else Inl (Error ''Objects are not valid as a React child''))"

text \<open>The text a child displays, and all text of a tree in document order.\<close>

fun child_texts :: "jsval \<Rightarrow> jsval list" where
  "child_texts (JStr s) = [JStr s]"
| "child_texts (JNum n) = [JNum n]"
| "child_texts (JArr xs) = concat (map child_texts xs)"
| "child_texts v = []"

fun texts :: "view \<Rightarrow> jsval list" where
  "texts (Elem n ps cs) = concat (map texts cs)"
| "texts (Child v) = child_texts v"

definition heading :: "string \<Rightarrow> view" where
  "heading s = Elem ''Typography'' [(''variant'', PStr ''h6'')] [text_of s]"

section \<open>The roadmap panel: \<^verbatim>\<open>client/src/components/RoadmapDialog.tsx\<close>\<close>

subsection \<open>The four sections\<close>

text \<open>
  Skills gap. \<^verbatim>\<open>roadmap.skills_gap && Array.isArray(roadmap.skills_gap) &&
  roadmap.skills_gap.length > 0 ? roadmap.skills_gap.map(...) : <placeholder>\<close>. An entry
  is coloured by \<^verbatim>\<open>skill?.startsWith?.('Required:') ? 'error.main' : 'info.main'\<close> and
  shows \<^verbatim>\<open>skill || 'Unknown skill'\<close>.
\<close>

definition skill_item :: "jsval \<Rightarrow> nat \<Rightarrow> error + view" where
  "skill_item skill index =
     (case startsWith_opt skill ''Required:'' of
        Inl e \<Rightarrow> Inl e
      | Inr b \<Rightarrow>
          Inr (Elem ''Typography''
                 [(''variant'', PStr ''body2''),
                  (''sx.color'', PStr (if truthy b then ''error.main'' else ''info.main''))]
                 [Child (js_or skill (JStr ''Unknown skill''))]))"

definition skills_gap_section :: "jsval \<Rightarrow> error + view list" where
  "skills_gap_section roadmap =
     (case js_member roadmap ''skills_gap'' of
        Inl e \<Rightarrow> Inl e
      | Inr skills_gap \<Rightarrow>
          if truthy skills_gap \<and> isArray skills_gap \<and> 0 < js_length skills_gap
          then array_map skills_gap skill_item
          else Inr [placeholder ''No skills gap data available''])"

text \<open>
  Learning path. A phase shows \<^verbatim>\<open>step?.title || `Phase ${index + 1}`\<close>,
  \<^verbatim>\<open>step?.duration || 'Duration not specified'\<close> and, under
  \<^verbatim>\<open>step?.tasks && Array.isArray(step.tasks)\<close>, one line per task; the task list has no
  length test, so an empty array of tasks shows nothing.
\<close>

definition task_item :: "jsval \<Rightarrow> nat \<Rightarrow> error + view" where
  "task_item task taskIndex =
     Inr (Elem ''Typography'' [(''variant'', PStr ''body2'')]
            [Child (js_or task (JStr ''Task not specified''))])"

definition step_tasks :: "jsval \<Rightarrow> error + view list" where
  "step_tasks step =
     (if truthy (opt_member step ''tasks'')
      then (case js_member step ''tasks'' of
              Inl e \<Rightarrow> Inl e
            | Inr tasks \<Rightarrow>
                if isArray tasks then array_map tasks task_item
                else Inr [placeholder ''No tasks defined for this phase''])
      else Inr [placeholder ''No tasks defined for this phase''])"

definition step_item :: "jsval \<Rightarrow> nat \<Rightarrow> error + view" where
  "step_item step index =
     (case step_tasks step of
        Inl e \<Rightarrow> Inl e
      | Inr tasks \<Rightarrow>
          Inr (Elem ''Step'' [(''active'', PBool True)]
                 [Elem ''StepLabel'' []
                    [Elem ''Typography'' [(''variant'', PStr ''subtitle1'')]
                       [Child (js_or (opt_member step ''title'')
                                 (JStr (''Phase '' @ show_nat (index + 1))))],
                     Elem ''Typography''
                       [(''variant'', PStr ''caption''), (''color'', PStr ''text.secondary'')]
                       [Child (js_or (opt_member step ''duration'')
                                 (JStr ''Duration not specified''))]],
                  Elem ''StepContent'' [] [Elem ''Box'' [] tasks]]))"

definition learning_path_section :: "jsval \<Rightarrow> error + view list" where
  "learning_path_section roadmap =
     (case js_member roadmap ''learning_path'' of
        Inl e \<Rightarrow> Inl e
      | Inr learning_path \<Rightarrow>
          if truthy learning_path \<and> isArray learning_path \<and> 0 < js_length learning_path
          then array_map learning_path step_item
          else Inr [placeholder ''No learning path data available''])"

text \<open>Certifications: \<^verbatim>\<open>cert || 'Certification not specified'\<close> per entry.\<close>

definition cert_item :: "jsval \<Rightarrow> nat \<Rightarrow> error + view" where
  "cert_item cert index =
     Inr (Elem ''Typography'' [(''variant'', PStr ''body2'')]
            [Child (js_or cert (JStr ''Certification not specified''))])"

definition certifications_section :: "jsval \<Rightarrow> error + view list" where
  "certifications_section roadmap =
     (case js_member roadmap ''certifications'' of
        Inl e \<Rightarrow> Inl e
      | Inr certifications \<Rightarrow>
          if truthy certifications \<and> isArray certifications \<and> 0 < js_length certifications
          then array_map certifications cert_item
          else Inr [placeholder ''No certification recommendations available''])"

text \<open>
  Projects: \<^verbatim>\<open>project?.title || `Project ${index + 1}`\<close> and
  \<^verbatim>\<open>project?.description || 'Project description not available'\<close>.
\<close>

definition project_item :: "jsval \<Rightarrow> nat \<Rightarrow> error + view" where
  "project_item project index =
     Inr (Elem ''Box'' []
            [Elem ''Typography'' [(''variant'', PStr ''subtitle1''), (''color'', PStr ''primary'')]
               [Child (js_or (opt_member project ''title'')
                         (JStr (''Project '' @ show_nat (index + 1))))],
             Elem ''Typography''
               [(''variant'', PStr ''body2''), (''color'', PStr ''text.secondary'')]
               [Child (js_or (opt_member project ''description'')
                         (JStr ''Project description not available''))]])"

definition projects_section :: "jsval \<Rightarrow> error + view list" where
  "projects_section roadmap =
     (case js_member roadmap ''projects'' of
        Inl e \<Rightarrow> Inl e
      | Inr projects \<Rightarrow>
          if truthy projects \<and> isArray projects \<and> 0 < js_length projects
          then array_map projects project_item
          else Inr [placeholder ''No project suggestions available''])"

text \<open>
  The grid of the four sections, evaluated in the order of the JSX: an exception in one
  section leaves the whole component function.
\<close>

definition sections_grid :: "view list \<Rightarrow> view list \<Rightarrow> view list \<Rightarrow> view list \<Rightarrow> view" where
  "sections_grid skills path certs projs =
     Elem ''Box'' []
       [Elem ''Box'' [] [heading ''Skills Gap Analysis'', Elem ''Box'' [] skills],
        Elem ''Box'' []
          [heading ''Learning Path'', Elem ''Stepper'' [(''orientation'', PStr ''vertical'')] path],
        Elem ''Box'' [] [heading ''Recommended Certifications'', Elem ''Box'' [] certs],
        Elem ''Box'' [] [heading ''Suggested Projects'', Elem ''Box'' [] projs]]"

definition roadmap_sections :: "jsval \<Rightarrow> error + view" where
  "roadmap_sections roadmap =
     (case skills_gap_section roadmap of Inl e \<Rightarrow> Inl e | Inr skills \<Rightarrow>
      case learning_path_section roadmap of Inl e \<Rightarrow> Inl e | Inr path \<Rightarrow>
      case certifications_section roadmap of Inl e \<Rightarrow> Inl e | Inr certs \<Rightarrow>
      case projects_section roadmap of Inl e \<Rightarrow> Inl e | Inr projs \<Rightarrow>
        Inr (sections_grid skills path certs projs))"

section \<open>The network and the request cache\<close>

text \<open>
  A request as the components issue it through the HTTP client, and the backend as an
  opaque collaborator: a function from the request and its own state to a response (or a
  failure) and its next state. Every call of the HTTP client is recorded in \<open>sent\<close>.
\<close>

datatype file_handle = File string

datatype request =
    Get string
  | Post string jsval
  | PostForm string "(string \<times> file_handle) list"

type_synonym ('s, 'd) server = "request \<Rightarrow> 's \<Rightarrow> (error + 'd) \<times> 's"

record 's network =
  backend :: 's
  sent :: "request list"

definition axios :: "('s, 'd) server \<Rightarrow> request \<Rightarrow> 's network \<Rightarrow> (error + 'd) \<times> 's network" where
  "axios srv req net =
     (case srv req (backend net) of
        (r, s') \<Rightarrow> (r, \<lparr>backend = s', sent = sent net @ [req]\<rparr>))"

text \<open>
  Modelled from the spec: the shared request cache (\<^verbatim>\<open>useQuery\<close> of the query library, a
  dependency that is not part of the sources). The spec and the comments beside the options
  in \<^verbatim>\<open>RoadmapDialog.tsx\<close> fix what is modelled: results are cached under the query key;
  a query is fetched only while \<open>enabled\<close> ("Only fetch when dialog is open and we have
  required data"); a failed request is retried \<open>retry\<close> times ("Retry failed requests
  twice"); data is fresh for \<open>staleTime\<close> milliseconds after it arrived ("Consider data
  fresh for 5 minutes") and fresh data is served from the cache without a request. Time
  is in milliseconds. Left out: removal of entries nobody observes (by the library's default
  no earlier than five minutes after the data arrived), refetching on window focus or
  reconnect (which also happens only for stale data), and the delay between retries.
\<close>

record query_options =
  queryKey :: "jsval list"
  enabled :: bool
  retry :: nat
  staleTime :: nat

record 'd cache_entry =
  entry_data :: 'd
  dataUpdatedAt :: nat

type_synonym 'd query_cache = "jsval list \<Rightarrow> 'd cache_entry option"

datatype query_status = Pending | Success | Failed

datatype fetch_status = Fetching | Idle

record 'd query_result =
  data :: "'d option"
  status :: query_status
  fetchStatus :: fetch_status
  error :: "error option"

text \<open>
  Modelled from the spec: the flags the components destructure from the hook's result, read
  off the states a query passes through (idle, loading, success, error). A query is loading
  while its first fetch is under way and has no data yet; it is in error when its fetch
  has failed. (The upload panel reads \<^verbatim>\<open>uploadMutation.isPending\<close>, which is the
  vocabulary of version 5 of the library, where \<^verbatim>\<open>isLoading\<close> is
  \<^verbatim>\<open>isFetching && isPending\<close>.)
\<close>

definition isLoading :: "'d query_result \<Rightarrow> bool" where
  "isLoading q = (status q = Pending \<and> fetchStatus q = Fetching)"

definition isError :: "'d query_result \<Rightarrow> bool" where
  "isError q = (status q = Failed)"

text \<open>
  Modelled from the spec: cached data is stale once \<open>staleTime\<close> milliseconds have passed
  since it arrived, and a query is fetched when it is enabled and has no fresh data.
\<close>

definition is_stale :: "'d cache_entry \<Rightarrow> nat \<Rightarrow> nat \<Rightarrow> bool" where
  "is_stale e stale_ms now = (dataUpdatedAt e + stale_ms \<le> now)"

definition should_fetch :: "query_options \<Rightarrow> 'd query_cache \<Rightarrow> nat \<Rightarrow> bool" where
  "should_fetch opts cache now =
     (enabled opts \<and>
      (case cache (queryKey opts) of None \<Rightarrow> True | Some e \<Rightarrow> is_stale e (staleTime opts) now))"

text \<open>
  Modelled from the spec: the query function is run once and again after each failure,
  \<open>n\<close> more times at most.
\<close>

fun fetch_retry :: "nat \<Rightarrow> ('n \<Rightarrow> (error + 'd) \<times> 'n) \<Rightarrow> 'n \<Rightarrow> (error + 'd) \<times> 'n" where
  "fetch_retry 0 queryFn net = queryFn net"
| "fetch_retry (Suc n) queryFn net =
     (case queryFn net of
        (Inr d, net') \<Rightarrow> (Inr d, net')
      | (Inl e, net') \<Rightarrow> fetch_retry n queryFn net')"

text \<open>Modelled from the spec: what the hook shows while a request for a key is under way.\<close>

definition in_flight :: "query_options \<Rightarrow> 'd query_cache \<Rightarrow> 'd query_result" where
  "in_flight opts cache =
     (case cache (queryKey opts) of
        None \<Rightarrow> \<lparr>data = None, status = Pending, fetchStatus = Fetching, error = None\<rparr>
      | Some e \<Rightarrow>
          \<lparr>data = Some (entry_data e), status = Success, fetchStatus = Fetching, error = None\<rparr>)"

text \<open>
  Modelled from the spec: observing a query at time \<open>now\<close> (mounting the component, or
  rendering it with other options). The result is what the hook settles on, the cache
  afterwards and the network afterwards. A fetch that succeeds stores the data under the key
  with the time of arrival; one that fails after its retries leaves the cache as it was.
\<close>

definition use_query ::
  "query_options \<Rightarrow> ('n \<Rightarrow> (error + 'd) \<times> 'n) \<Rightarrow> nat \<Rightarrow> 'd query_cache \<times> 'n \<Rightarrow>
     'd query_result \<times> 'd query_cache \<times> 'n" where
  "use_query opts queryFn now cn =
     (case cn of (cache, net) \<Rightarrow>
        if should_fetch opts cache now
        then (case fetch_retry (retry opts) queryFn net of
                (Inr d, net') \<Rightarrow>
                  (\<lparr>data = Some d, status = Success, fetchStatus = Idle, error = None\<rparr>,
                   cache(queryKey opts \<mapsto> \<lparr>entry_data = d, dataUpdatedAt = now\<rparr>),
                   net')
              | (Inl e, net') \<Rightarrow>
                  (\<lparr>data = map_option entry_data (cache (queryKey opts)), status = Failed,
                    fetchStatus = Idle, error = Some e\<rparr>,
                   cache, net'))
        else (case cache (queryKey opts) of
                None \<Rightarrow>
                  (\<lparr>data = None, status = Pending, fetchStatus = Idle, error = None\<rparr>, cache, net)
              | Some e \<Rightarrow>
                  (\<lparr>data = Some (entry_data e), status = Success, fetchStatus = Idle,
                    error = None\<rparr>,
                   cache, net)))"

subsection \<open>The roadmap query\<close>

record RoadmapDialogProps =
  is_open :: bool
  resumeId :: string
  jobTitle :: string

text \<open>
  \<^verbatim>\<open>queryKey: ['roadmap', resumeId, jobTitle]\<close>,
  \<^verbatim>\<open>enabled: open && !!resumeId && !!jobTitle\<close>, \<^verbatim>\<open>retry: 2\<close>,
  \<^verbatim>\<open>staleTime: 5 * 60 * 1000\<close>.
\<close>

definition roadmap_query_options :: "RoadmapDialogProps \<Rightarrow> query_options" where
  "roadmap_query_options props =
     \<lparr>queryKey = [JStr ''roadmap'', JStr (resumeId props), JStr (jobTitle props)],
      enabled = (is_open props \<and> truthy (JStr (resumeId props)) \<and> truthy (JStr (jobTitle props))),
      retry = 2,
      staleTime = 5 * 60 * 1000\<rparr>"

text \<open>
  The query function posts \<^verbatim>\<open>{resume_id, target_role}\<close> to \<^verbatim>\<open>${API_URL}/career/roadmap\<close>
  and rethrows a failure as an \<^verbatim>\<open>Error\<close> with the same message.
\<close>

definition roadmap_request :: "string \<Rightarrow> RoadmapDialogProps \<Rightarrow> request" where
  "roadmap_request API_URL props =
     Post (API_URL @ ''/career/roadmap'')
       (JObj [(''resume_id'', JStr (resumeId props)), (''target_role'', JStr (jobTitle props))])"

definition roadmap_queryFn ::
  "string \<Rightarrow> ('s, jsval) server \<Rightarrow> RoadmapDialogProps \<Rightarrow> 's network \<Rightarrow> (error + jsval) \<times> 's network" where
  "roadmap_queryFn API_URL srv props net =
     (case axios srv (roadmap_request API_URL props) net of
        (Inr d, net') \<Rightarrow> (Inr d, net')
      | (Inl e, net') \<Rightarrow> (Inl (Error (message e)), net'))"

definition roadmap_query ::
  "string \<Rightarrow> ('s, jsval) server \<Rightarrow> RoadmapDialogProps \<Rightarrow> nat \<Rightarrow>
     jsval query_cache \<times> 's network \<Rightarrow> jsval query_result \<times> jsval query_cache \<times> 's network" where
  "roadmap_query API_URL srv props now cn =
     use_query (roadmap_query_options props) (roadmap_queryFn API_URL srv props) now cn"

subsection \<open>What the dialog returns\<close>

text \<open>
  The JSX of \<^verbatim>\<open>RoadmapDialog\<close> as a function of its props and of the hook's result.
  \<^verbatim>\<open>{cond && <X/>}\<close> is the element when the condition holds and the falsy value of
  the condition otherwise. \<open>roadmap\<close> is the hook's \<open>data\<close>, undefined while there is
  none.
\<close>

definition roadmap_of :: "jsval query_result \<Rightarrow> jsval" where
  "roadmap_of q = (case data q of None \<Rightarrow> JUndefined | Some v \<Rightarrow> v)"

definition loading_view :: view where
  "loading_view =
     Elem ''Box'' []
       [Elem ''Typography'' [] [text_of ''Generating your personalized career roadmap...'']]"

text \<open>
  The error block: \<^verbatim>\<open>error instanceof Error ? error.message : '...'\<close>, with a Close and
  a Retry button of its own (Retry reloads the page).
\<close>

definition error_view :: "error option \<Rightarrow> view" where
  "error_view err =
     Elem ''Box'' [(''sx.color'', PStr ''error.main'')]
       [Elem ''Typography'' [(''variant'', PStr ''h6'')] [text_of ''Error Loading Roadmap''],
        Elem ''Typography'' []
          [text_of (case err of
                      Some e \<Rightarrow> message e
                    | None \<Rightarrow> ''An error occurred while generating your career roadmap'')],
        Elem ''Typography'' [(''variant'', PStr ''body2''), (''sx.color'', PStr ''text.secondary'')]
          [text_of ''Please try again. If the problem persists, check the console for more details.''],
        Elem ''Box'' []
          [Elem ''Button''
             [(''variant'', PStr ''outlined''), (''color'', PStr ''primary''), (''onClick'', PAct OnClose)]
             [text_of ''Close''],
           Elem ''Button''
             [(''variant'', PStr ''contained''), (''color'', PStr ''primary''), (''onClick'', PAct Reload)]
             [text_of ''Retry'']]]"

text \<open>
  The debug box of development builds (\<^verbatim>\<open>import.meta.env.DEV\<close>): the four counts
  \<^verbatim>\<open>roadmap?.field?.length || 0\<close> and \<^verbatim>\<open>JSON.stringify(roadmap, null, 2)\<close>. The
  serialiser is a parameter.
\<close>

definition debug_count :: "jsval \<Rightarrow> string \<Rightarrow> jsval" where
  "debug_count roadmap k = js_or (opt_member (opt_member roadmap k) ''length'') (JNum 0)"

definition debug_info :: "(jsval \<Rightarrow> string) \<Rightarrow> jsval \<Rightarrow> view" where
  "debug_info stringify roadmap =
     Elem ''Box'' []
       [Elem ''Typography'' [(''variant'', PStr ''caption'')] [text_of ''Debug Info:''],
        Elem ''Typography'' [(''variant'', PStr ''caption'')]
          [text_of ''Data received: '', text_of (if truthy roadmap then ''Yes'' else ''No''),
           text_of '' | Skills gap: '', Child (debug_count roadmap ''skills_gap''),
           text_of '' | Learning path: '', Child (debug_count roadmap ''learning_path''),
           text_of '' | Certifications: '', Child (debug_count roadmap ''certifications''),
           text_of '' | Projects: '', Child (debug_count roadmap ''projects'')],
        Elem ''Box'' [(''component'', PStr ''pre'')] [text_of (stringify roadmap)]]"

text \<open>
  \<^verbatim>\<open>!isLoading && !isError && roadmap && (...)\<close>, the guard of the roadmap itself and of
  Save: the block is evaluated when the query is neither loading nor in error and the
  roadmap is truthy. Otherwise the expression is \<^verbatim>\<open>false\<close>, or the falsy roadmap itself
  (undefined, null, false, 0 or the empty string).
\<close>

definition shows_roadmap :: "jsval query_result \<Rightarrow> bool" where
  "shows_roadmap q = (\<not> isLoading q \<and> \<not> isError q \<and> truthy (roadmap_of q))"

definition guard_value :: "jsval query_result \<Rightarrow> view" where
  "guard_value q =
     (if isLoading q \<or> isError q then Child (JBool False) else Child (roadmap_of q))"

definition roadmap_block :: "bool \<Rightarrow> (jsval \<Rightarrow> string) \<Rightarrow> jsval query_result \<Rightarrow> error + view" where
  "roadmap_block DEV stringify q =
     (if shows_roadmap q
      then (case roadmap_sections (roadmap_of q) of
              Inl e \<Rightarrow> Inl e
            | Inr sections \<Rightarrow>
                Inr (Elem ''Box'' []
                       [js_and DEV (debug_info stringify (roadmap_of q)), sections]))
      else Inr (guard_value q))"

definition dialog_content :: "bool \<Rightarrow> (jsval \<Rightarrow> string) \<Rightarrow> jsval query_result \<Rightarrow> error + view list" where
  "dialog_content DEV stringify q =
     (case roadmap_block DEV stringify q of
        Inl e \<Rightarrow> Inl e
      | Inr block \<Rightarrow>
          Inr [js_and (isLoading q) loading_view,
               js_and (isError q) (error_view (error q)),
               block])"

text \<open>
  The actions: Close, \<^verbatim>\<open>disabled={isLoading}\<close>, and Save under the same guard as the
  roadmap.
\<close>

definition close_button :: "jsval query_result \<Rightarrow> view" where
  "close_button q =
     Elem ''Button''
       [(''onClick'', PAct OnClose), (''variant'', PStr ''outlined''), (''color'', PStr ''primary''),
        (''disabled'', PBool (isLoading q))]
       [text_of ''Close'']"

definition dialog_actions :: "jsval query_result \<Rightarrow> view list" where
  "dialog_actions q =
     [close_button q,
      if shows_roadmap q
      then Elem ''Button''
             [(''variant'', PStr ''contained''), (''color'', PStr ''primary''),
              (''onClick'', PAct SaveRoadmap)]
             [text_of ''Save Roadmap'']
      else guard_value q]"

text \<open>The tree the component function returns, or the exception that leaves it.\<close>

definition RoadmapDialog ::
  "bool \<Rightarrow> (jsval \<Rightarrow> string) \<Rightarrow> RoadmapDialogProps \<Rightarrow> jsval query_result \<Rightarrow> error + view" where
  "RoadmapDialog DEV stringify props q =
     (case dialog_content DEV stringify q of
        Inl e \<Rightarrow> Inl e
      | Inr content \<Rightarrow>
          Inr (Elem ''Dialog'' [(''open'', PBool (is_open props)), (''onClose'', PAct OnClose)]
                 [Elem ''DialogTitle'' [] [text_of ''Career Roadmap: '', text_of (jobTitle props)],
                  Elem ''DialogContent'' [] content,
                  Elem ''DialogActions'' [] (dialog_actions q)]))"

text \<open>
  Rendering the panel: the component function runs and the framework displays what it
  returned. (The dialog of the component library displays its children while it is open; the
  statements below either are about an open dialog or conclude that displaying succeeds.)
\<close>

definition render_RoadmapDialog ::
  "bool \<Rightarrow> (jsval \<Rightarrow> string) \<Rightarrow> RoadmapDialogProps \<Rightarrow> jsval query_result \<Rightarrow> error + view" where
  "render_RoadmapDialog DEV stringify props q = react_render (RoadmapDialog DEV stringify props q)"

text \<open>
  Reading an element tree: the value of a property of an element, its children, and the
  elements of a given name anywhere below it.
\<close>

fun attr_of :: "view \<Rightarrow> string \<Rightarrow> attr option" where
  "attr_of (Elem n ps cs) k = map_of ps k"
| "attr_of (Child v) k = None"

fun children :: "view \<Rightarrow> view list" where
  "children (Elem n ps cs) = cs"
| "children (Child v) = []"

fun elems_named :: "string \<Rightarrow> view \<Rightarrow> view list" where
  "elems_named n (Elem m ps cs) =
     (if m = n then [Elem m ps cs] else []) @ concat (map (elems_named n) cs)"
| "elems_named n (Child v) = []"

text \<open>A button is disabled when it carries \<^verbatim>\<open>disabled={true}\<close>.\<close>

definition disabled :: "view \<Rightarrow> bool" where
  "disabled b = (attr_of b ''disabled'' = Some (PBool True))"

text \<open>
  The first button under \<^verbatim>\<open>DialogActions\<close>, the third child of the dialog.
\<close>

definition actions_first_button :: "view \<Rightarrow> view option" where
  "actions_first_button dialog =
     (case children dialog of
        [t, c, Elem n ps (b # bs)] \<Rightarrow> if n = ''DialogActions'' then Some b else None
      | _ \<Rightarrow> None)"

text \<open>
  The entries of \<^verbatim>\<open>skills_gap\<close> on which \<^verbatim>\<open>skill?.startsWith?.(...)\<close> does not call a value
  that is not a function: everything but an object with a property \<^verbatim>\<open>startsWith\<close> of its
  own. The interface declares the entries as strings.
\<close>

fun plain_entry :: "jsval \<Rightarrow> bool" where
  "plain_entry (JObj kvs) = nullish (get_prop (JObj kvs) ''startsWith'')"
| "plain_entry v = True"

definition skills_plain :: "jsval \<Rightarrow> bool" where
  "skills_plain roadmap =
     (case get_prop roadmap ''skills_gap'' of JArr xs \<Rightarrow> list_all plain_entry xs | _ \<Rightarrow> True)"

subsection \<open>The earlier copy of the dialog\<close>

text \<open>
  The repository also holds an earlier text of \<^verbatim>\<open>RoadmapDialog\<close>; \<^verbatim>\<open>JobList\<close> imports
  \<^verbatim>\<open>./RoadmapDialog\<close>, the file modelled above. The earlier text has the same query
  options, the same colour rule for strings and the same Close button, but its sections map
  over the fields without any test: \<^verbatim>\<open>roadmap.certifications.map((cert) => ...)\<close>.
\<close>

definition certifications_unguarded :: "jsval \<Rightarrow> error + view list" where
  "certifications_unguarded roadmap =
     (case js_member roadmap ''certifications'' of
        Inl e \<Rightarrow> Inl e
      | Inr certifications \<Rightarrow>
          array_map certifications
            (\<lambda>cert index. Inr (Elem ''Typography'' [(''variant'', PStr ''body2'')] [Child cert])))"

section \<open>The match list: \<^verbatim>\<open>JobList\<close>\<close>

text \<open>
  A match as the interface \<^verbatim>\<open>Job\<close> declares it; the callback of \<^verbatim>\<open>jobs?.map\<close> is
  annotated \<^verbatim>\<open>(job: Job)\<close>. A score is a number of the program, and \<^verbatim>\<open>job.score * 100\<close>
  is the product of doubles.
\<close>

record Job =
  job_id :: string
  title :: string
  company :: string
  score :: number
  match_percentage :: string

text \<open>A \<^verbatim>\<open>string | null\<close> as a JavaScript value.\<close>

fun js_of :: "string option \<Rightarrow> jsval" where
  "js_of None = JNull"
| "js_of (Some s) = JStr s"

text \<open>\<^verbatim>\<open>queryKey: ['jobs', resumeId]\<close>, \<^verbatim>\<open>enabled: !!resumeId\<close>; retry and stale time are
  the library's defaults (three retries, data stale at once).\<close>

definition jobs_query_options :: "string option \<Rightarrow> query_options" where
  "jobs_query_options resumeId' =
     \<lparr>queryKey = [JStr ''jobs'', js_of resumeId'],
      enabled = truthy (js_of resumeId'),
      retry = 3,
      staleTime = 0\<rparr>"

text \<open>
  \<^verbatim>\<open>if (!resumeId) return []\<close>, then \<^verbatim>\<open>axios.get(`${API_URL}/jobs/match/${resumeId}`)\<close>.
\<close>

definition jobs_queryFn ::
  "string \<Rightarrow> ('s, Job list) server \<Rightarrow> string option \<Rightarrow> 's network \<Rightarrow> (error + Job list) \<times> 's network" where
  "jobs_queryFn API_URL srv resumeId' net =
     (case resumeId' of
        None \<Rightarrow> (Inr [], net)
      | Some r \<Rightarrow>
          if \<not> truthy (JStr r) then (Inr [], net)
          else axios srv (Get (API_URL @ ''/jobs/match/'' @ r)) net)"

definition jobs_query ::
  "string \<Rightarrow> ('s, Job list) server \<Rightarrow> string option \<Rightarrow> nat \<Rightarrow>
     Job list query_cache \<times> 's network \<Rightarrow> Job list query_result \<times> Job list query_cache \<times> 's network" where
  "jobs_query API_URL srv resumeId' now cn =
     use_query (jobs_query_options resumeId') (jobs_queryFn API_URL srv resumeId') now cn"

text \<open>
  One card: the progress bar gets \<^verbatim>\<open>value={job.score * 100}\<close>, the text beside it is
  \<^verbatim>\<open>{job.match_percentage}\<close>.
\<close>

definition job_card :: "Job \<Rightarrow> view" where
  "job_card job =
     Elem ''Card'' []
       [Elem ''CardContent'' []
          [Elem ''Typography'' [(''variant'', PStr ''h6'')] [text_of (title job)],
           Elem ''Typography'' [(''variant'', PStr ''subtitle1''), (''color'', PStr ''text.secondary'')]
             [text_of (company job)],
           Elem ''Box'' []
             [Elem ''Typography'' [(''variant'', PStr ''body2''), (''color'', PStr ''text.secondary'')]
                [text_of ''Match Score''],
              Elem ''Box'' []
                [Elem ''LinearProgress''
                   [(''variant'', PStr ''determinate''), (''value'', PNum (js_mul (score job) (Fin 100)))] [],
                 Elem ''Typography'' [(''variant'', PStr ''body2'')] [text_of (match_percentage job)]],
              Elem ''Box'' []
                [Elem ''Button''
                   [(''variant'', PStr ''outlined''), (''size'', PStr ''small''),
                    (''onClick'', PAct (SetSelectedJob (title job)))]
                   [text_of ''View Career Roadmap'']]]]]"

definition no_jobs_message :: view where
  "no_jobs_message =
     Elem ''Typography'' [(''color'', PStr ''text.secondary'')]
       [text_of ''No matching jobs found. Please try uploading a different resume.'']"

text \<open>
  The component: nothing (\<^verbatim>\<open>return null\<close>) without a resume identifier, a spinner while
  loading, a message on an error, and otherwise the dialog element, the heading and either
  the message of an empty list (\<^verbatim>\<open>jobs?.length === 0\<close>) or the cards
  (\<^verbatim>\<open>jobs?.map(...)\<close>, nothing while \<open>jobs\<close> is undefined).
\<close>

definition JobList :: "string option \<Rightarrow> string option \<Rightarrow> Job list query_result \<Rightarrow> view option" where
  "JobList resumeId' selectedJob q =
     (case resumeId' of
        None \<Rightarrow> None
      | Some r \<Rightarrow>
          if \<not> truthy (JStr r) then None
          else if isLoading q then Some (Elem ''Box'' [] [Elem ''CircularProgress'' [] []])
          else if error q \<noteq> None
          then Some (Elem ''Typography'' [(''color'', PStr ''error'')]
                       [text_of ''Error loading job matches''])
          else Some (Elem ''Box'' []
                 [Elem ''RoadmapDialog''
                    [(''open'', PBool (truthy (js_of selectedJob))),
                     (''onClose'', PAct OnClose),
                     (''resumeId'', PStr r),
                     (''jobTitle'', PStr (case selectedJob of None \<Rightarrow> [] | Some t \<Rightarrow> t))]
                    [],
                  Elem ''Typography'' [(''variant'', PStr ''h5'')] [text_of ''Matching Jobs''],
                  (case data q of
                     Some [] \<Rightarrow> no_jobs_message
                   | Some jobs \<Rightarrow> Elem ''Box'' [(''className'', PStr ''job-list'')] (map job_card jobs)
                   | None \<Rightarrow> Elem ''Box'' [(''className'', PStr ''job-list'')] [])]))"

section \<open>The upload panel: \<^verbatim>\<open>ResumeUpload\<close>\<close>

text \<open>
  The state of the panel: the selected file (\<^verbatim>\<open>file\<close>, a \<^verbatim>\<open>File | null\<close>), the status
  of the mutation, the requests sent so far, the query keys invalidated so far, and the
  arguments of every call of the completion callback \<^verbatim>\<open>onUploadSuccess\<close>, in order.
\<close>

datatype mutation_status = MIdle | MPending | MSuccess | MError

record upload_state =
  selected_file :: "file_handle option"
  mutation :: mutation_status
  requests :: "request list"
  invalidated :: "jsval list list"
  onUploadSuccess_calls :: "jsval list"

definition isPending :: "upload_state \<Rightarrow> bool" where
  "isPending st = (mutation st = MPending)"

text \<open>
  \<^verbatim>\<open>uploadMutation.mutate(formData)\<close>: the mutation function of the source posts the form
  to \<^verbatim>\<open>${API_URL}/resume/upload\<close>. Modelled from the spec: the mutation (\<^verbatim>\<open>useMutation\<close>
  of the query library) runs its function at once and is pending until the response arrives.
\<close>

definition mutate :: "string \<Rightarrow> (string \<times> file_handle) list \<Rightarrow> upload_state \<Rightarrow> upload_state" where
  "mutate API_URL formData st =
     st\<lparr>mutation := MPending,
        requests := requests st @ [PostForm (API_URL @ ''/resume/upload'') formData]\<rparr>"

text \<open>
  \<^verbatim>\<open>handleUpload\<close>: \<^verbatim>\<open>if (!file) return\<close>, then a form with the file under the field
  \<^verbatim>\<open>file\<close> is handed to the mutation.
\<close>

definition handleUpload :: "string \<Rightarrow> upload_state \<Rightarrow> upload_state" where
  "handleUpload API_URL st =
     (case selected_file st of
        None \<Rightarrow> st
      | Some f \<Rightarrow> mutate API_URL [(''file'', f)] st)"

text \<open>The submit button: \<^verbatim>\<open>disabled={!file || uploadMutation.isPending}\<close>.\<close>

definition submit_disabled :: "upload_state \<Rightarrow> bool" where
  "submit_disabled st = (selected_file st = None \<or> isPending st)"

definition ResumeUpload :: "upload_state \<Rightarrow> view" where
  "ResumeUpload st =
     Elem ''Box'' []
       [Elem ''Typography'' [(''variant'', PStr ''h5'')] [text_of ''Career Path Navigator''],
         Elem ''div'' [(''className'', PStr ''upload-container'')]
           [Elem ''label'' [(''htmlFor'', PStr ''resume-file'')] [text_of ''Upload your resume''],
            Elem ''input''
              [(''id'', PStr ''resume-file''), (''type'', PStr ''file''),
               (''accept'', PStr ''.pdf,.doc,.docx''), (''onChange'', PAct SetFile)] []],
         Elem ''Button''
           [(''variant'', PStr ''contained''), (''onClick'', PAct HandleUpload),
            (''disabled'', PBool (submit_disabled st))]
           [if isPending st then Elem ''CircularProgress'' [] [] else text_of ''Upload Resume''],
         js_and (mutation st = MSuccess)
           (Elem ''Typography'' [(''color'', PStr ''success.main'')]
              [text_of ''Resume uploaded successfully!'']),
         js_and (mutation st = MError)
           (Elem ''Typography'' [(''color'', PStr ''error.main'')]
              [text_of ''Error uploading resume. Please try again.''])]"

text \<open>
  A click on the submit button: a disabled button dispatches no click, an enabled one runs
  its handler.
\<close>

definition click_submit :: "string \<Rightarrow> upload_state \<Rightarrow> upload_state" where
  "click_submit API_URL st = (if submit_disabled st then st else handleUpload API_URL st)"

text \<open>
  \<^verbatim>\<open>onSuccess: (data) => { queryClient.invalidateQueries({ queryKey: ['resume'] });
  onUploadSuccess(data.id) }\<close>. Reading \<^verbatim>\<open>data.id\<close> throws on a body that is undefined
  or null, after the invalidation and before the callback.
\<close>

definition onSuccess :: "jsval \<Rightarrow> upload_state \<Rightarrow> error option \<times> upload_state" where
  "onSuccess data' st =
     (let st1 = st\<lparr>invalidated := invalidated st @ [[JStr ''resume'']]\<rparr> in
      case js_member data' ''id'' of
        Inl e \<Rightarrow> (Some e, st1)
      | Inr v \<Rightarrow> (None, st1\<lparr>onUploadSuccess_calls := onUploadSuccess_calls st1 @ [v]\<rparr>))"

text \<open>
  Modelled from the spec: the response to the pending request arrives. On a successful
  response the mutation runs the success handler once and succeeds (it fails when the handler
  throws); on a failure the mutation fails and no handler of the component runs. There is no
  retry.
\<close>

definition settle :: "error + jsval \<Rightarrow> upload_state \<Rightarrow> upload_state" where
  "settle response st =
     (case response of
        Inl e \<Rightarrow> st\<lparr>mutation := MError\<rparr>
      | Inr data' \<Rightarrow>
          (case onSuccess data' st of
             (None, st') \<Rightarrow> st'\<lparr>mutation := MSuccess\<rparr>
           | (Some e, st') \<Rightarrow> st'\<lparr>mutation := MError\<rparr>))"

text \<open>The panel as mounted: no file, nothing sent, nothing called.\<close>

definition initial_upload :: upload_state where
  "initial_upload =
     \<lparr>selected_file = None, mutation = MIdle, requests = [], invalidated = [], onUploadSuccess_calls = []\<rparr>"

text \<open>\<^verbatim>\<open>onChange={(e) => setFile(e.target.files?.[0] || null)}\<close>\<close>

definition setFile :: "file_handle option \<Rightarrow> upload_state \<Rightarrow> upload_state" where
  "setFile f st = st\<lparr>selected_file := f\<rparr>"

section \<open>Notions and examples the statements use\<close>

text \<open>A list that is present but empty, read as a missing one.\<close>

definition empty_as_missing :: "jsval \<Rightarrow> jsval" where
  "empty_as_missing v = (if v = JArr [] then JUndefined else v)"









text \<open>A roadmap response without the field \<^verbatim>\<open>certifications\<close>, arrived and shown.\<close>

definition example_roadmap :: jsval where
  "example_roadmap =
     JObj [(''skills_gap'', JArr [JStr ''Required: Python'', JStr ''Nice to have: Python'']),
           (''learning_path'',
              JArr [JObj [(''title'', JStr ''Foundations''), (''duration'', JStr ''4 weeks''),
                          (''tasks'', JArr [JStr ''Finish a Python course''])]]),
           (''projects'',
              JArr [JObj [(''title'', JStr ''Sales dashboard''),
                          (''description'', JStr ''Build a dashboard from public data'')]])]"

definition example_success :: "jsval query_result" where
  "example_success =
     \<lparr>data = Some example_roadmap, status = Success, fetchStatus = Idle, error = None\<rparr>"



definition example_props :: RoadmapDialogProps where
  "example_props = \<lparr>is_open = True, resumeId = ''r1'', jobTitle = ''Data Analyst''\<rparr>"

text \<open>A backend that answers every request with that roadmap, and one that always fails.\<close>

definition example_server :: "(unit, jsval) server" where
  "example_server req s = (Inr example_roadmap, s)"

definition failing_server :: "(unit, jsval) server" where
  "failing_server req s = (Inl (Error ''Network Error''), s)"

definition quiet :: "unit network" where
  "quiet = \<lparr>backend = (), sent = []\<rparr>"

text \<open>
  The hook's result while the first request for that roadmap is under way, and after the
  backend has failed the request and both retries.
\<close>

definition example_loading :: "jsval query_result" where
  "example_loading = in_flight (roadmap_query_options example_props) Map.empty"

definition example_failed :: "jsval query_result" where
  "example_failed =
     fst (roadmap_query ''/api'' failing_server example_props 0 (Map.empty, quiet))"

text \<open>A roadmap whose four lists are all present and empty.\<close>

definition all_empty :: jsval where
  "all_empty =
     JObj [(''skills_gap'', JArr []), (''learning_path'', JArr []), (''certifications'', JArr []),
           (''projects'', JArr [])]"

text \<open>A selected file, a list of matches that has arrived, and a backend without matches.\<close>

definition example_file :: file_handle where
  "example_file = File ''resume.pdf''"

definition example_job :: Job where
  "example_job =
     \<lparr>job_id = ''j1'', title = ''Data Analyst'', company = ''Acme'', score = to_double (73 / 100),
      match_percentage = ''73%''\<rparr>"

definition shown_jobs :: "Job list \<Rightarrow> Job list query_result" where
  "shown_jobs jobs = \<lparr>data = Some jobs, status = Success, fetchStatus = Idle, error = None\<rparr>"

definition example_jobs_server :: "(unit, Job list) server" where
  "example_jobs_server req s = (Inr [], s)"

section \<open>Properties of the roadmap panel\<close>

subsection \<open>When the component function throws and when it does not\<close>

lemma js_member_not_nullish: "\<not> nullish v \<Longrightarrow> js_member v k = Inr (get_prop v k)"
  by (simp add: js_member_def)

lemma truthy_not_nullish: "truthy v \<Longrightarrow> \<not> nullish v"
  by (cases v) simp_all

lemma isArray_iff: "isArray v = (\<exists>xs. v = JArr xs)"
  by (cases v) simp_all

lemma map_index_total:
  assumes "\<And>x i. \<exists>y. f x i = Inr y"
  shows "\<exists>ys. map_index f i xs = Inr ys"
proof (induction xs arbitrary: i)
  case Nil
  show ?case by simp
next
  case (Cons x xs)
  obtain y where y: "f x i = Inr y" using assms by blast
  obtain ys where ys: "map_index f (Suc i) xs = Inr ys" using Cons.IH by blast
  show ?case by (simp add: y ys)
qed

lemma skill_item_plain: "plain_entry x \<Longrightarrow> \<exists>y. skill_item x i = Inr y"
  by (cases x) (simp_all add: skill_item_def startsWith_opt_def)

lemma skill_item_not_plain: "\<not> plain_entry x \<Longrightarrow> \<exists>e. skill_item x i = Inl e"
  by (cases x) (simp_all add: skill_item_def startsWith_opt_def)

lemma map_index_skills:
  "list_all plain_entry xs \<Longrightarrow> \<exists>ys. map_index skill_item i xs = Inr ys"
proof (induction xs arbitrary: i)
  case Nil
  show ?case by simp
next
  case (Cons x xs)
  from Cons.prems have px: "plain_entry x" and pxs: "list_all plain_entry xs" by simp_all
  obtain y where y: "skill_item x i = Inr y" using skill_item_plain [OF px] by blast
  obtain ys where ys: "map_index skill_item (Suc i) xs = Inr ys" using Cons.IH [OF pxs] by blast
  show ?case by (simp add: y ys)
qed

lemma map_index_skills_throws:
  "\<not> list_all plain_entry xs \<Longrightarrow> \<exists>e. map_index skill_item i xs = Inl e"
proof (induction xs arbitrary: i)
  case Nil
  then show ?case by simp
next
  case (Cons x xs)
  show ?case
  proof (cases "plain_entry x")
    case True
    then obtain y where y: "skill_item x i = Inr y" using skill_item_plain by blast
    from Cons.prems True have "\<not> list_all plain_entry xs" by simp
    then obtain e where "map_index skill_item (Suc i) xs = Inl e" using Cons.IH by blast
    then show ?thesis by (simp add: y)
  next
    case False
    then obtain e where "skill_item x i = Inl e" using skill_item_not_plain by blast
    then show ?thesis by simp
  qed
qed

lemma skills_gap_section_ok:
  assumes "\<not> nullish roadmap" "skills_plain roadmap"
  shows "\<exists>skills. skills_gap_section roadmap = Inr skills"
proof (cases "get_prop roadmap ''skills_gap''")
  case (JArr xs)
  with assms(2) have "list_all plain_entry xs" by (simp add: skills_plain_def)
  then obtain ys where "map_index skill_item 0 xs = Inr ys" using map_index_skills by blast
  then show ?thesis using assms(1) JArr
    by (simp add: skills_gap_section_def js_member_def array_map_def)
qed (use assms(1) in \<open>simp_all add: skills_gap_section_def js_member_def\<close>)

lemma step_tasks_ok: "\<exists>ts. step_tasks step = Inr ts"
proof (cases "truthy (opt_member step ''tasks'')")
  case True
  then have nn: "\<not> nullish step" by (auto simp: opt_member_def split: if_splits)
  show ?thesis
  proof (cases "get_prop step ''tasks''")
    case (JArr xs)
    have "\<exists>ys. map_index task_item 0 xs = Inr ys"
      by (rule map_index_total) (simp add: task_item_def)
    then show ?thesis using True nn JArr by (auto simp add: step_tasks_def js_member_def array_map_def)
  qed (use True nn in \<open>simp_all add: step_tasks_def js_member_def\<close>)
next
  case False
  then show ?thesis by (simp add: step_tasks_def)
qed

lemma step_item_ok: "\<exists>y. step_item step i = Inr y"
proof -
  obtain ts where "step_tasks step = Inr ts" using step_tasks_ok by blast
  then show ?thesis by (simp add: step_item_def)
qed

lemma learning_path_section_ok:
  assumes "\<not> nullish roadmap"
  shows "\<exists>path. learning_path_section roadmap = Inr path"
proof (cases "get_prop roadmap ''learning_path''")
  case (JArr xs)
  have "\<exists>ys. map_index step_item 0 xs = Inr ys"
    by (rule map_index_total) (rule step_item_ok)
  then show ?thesis using assms JArr
    by (auto simp add: learning_path_section_def js_member_def array_map_def)
qed (use assms in \<open>simp_all add: learning_path_section_def js_member_def\<close>)

lemma certifications_section_ok:
  assumes "\<not> nullish roadmap"
  shows "\<exists>certs. certifications_section roadmap = Inr certs"
proof (cases "get_prop roadmap ''certifications''")
  case (JArr xs)
  have "\<exists>ys. map_index cert_item 0 xs = Inr ys"
    by (rule map_index_total) (simp add: cert_item_def)
  then show ?thesis using assms JArr
    by (auto simp add: certifications_section_def js_member_def array_map_def)
qed (use assms in \<open>simp_all add: certifications_section_def js_member_def\<close>)

lemma projects_section_ok:
  assumes "\<not> nullish roadmap"
  shows "\<exists>projs. projects_section roadmap = Inr projs"
proof (cases "get_prop roadmap ''projects''")
  case (JArr xs)
  have "\<exists>ys. map_index project_item 0 xs = Inr ys"
    by (rule map_index_total) (simp add: project_item_def)
  then show ?thesis using assms JArr
    by (auto simp add: projects_section_def js_member_def array_map_def)
qed (use assms in \<open>simp_all add: projects_section_def js_member_def\<close>)







text \<open>
  The component function throws on exactly one kind of response: a roadmap that is shown
  and whose \<^verbatim>\<open>skills_gap\<close> array holds an object with a property \<^verbatim>\<open>startsWith\<close>.
\<close>

lemma RoadmapDialog_throws_iff:
  "(\<exists>e. RoadmapDialog DEV stringify props q = Inl e) =
   (shows_roadmap q \<and> \<not> skills_plain (roadmap_of q))"
proof (cases "shows_roadmap q")
  case False
  then show ?thesis by (simp add: RoadmapDialog_def dialog_content_def roadmap_block_def)
next
  case True
  then have t: "truthy (roadmap_of q)" by (simp add: shows_roadmap_def)
  then have nn: "\<not> nullish (roadmap_of q)" by (rule truthy_not_nullish)
  show ?thesis
  proof (cases "skills_plain (roadmap_of q)")
    case p: True
    obtain skills where 1: "skills_gap_section (roadmap_of q) = Inr skills"
      using skills_gap_section_ok [OF nn p] by blast
    obtain path where 2: "learning_path_section (roadmap_of q) = Inr path"
      using learning_path_section_ok [OF nn] by blast
    obtain certs where 3: "certifications_section (roadmap_of q) = Inr certs"
      using certifications_section_ok [OF nn] by blast
    obtain projs where 4: "projects_section (roadmap_of q) = Inr projs"
      using projects_section_ok [OF nn] by blast
    show ?thesis using True p
      by (simp add: RoadmapDialog_def dialog_content_def roadmap_block_def roadmap_sections_def
          1 2 3 4)
  next
    case np: False
    then obtain xs where xs: "get_prop (roadmap_of q) ''skills_gap'' = JArr xs" "\<not> list_all plain_entry xs"
      by (auto simp: skills_plain_def split: jsval.splits)
    then obtain e where "map_index skill_item 0 xs = Inl e" using map_index_skills_throws by blast
    moreover from xs have "xs \<noteq> []" by auto
    ultimately have "skills_gap_section (roadmap_of q) = Inl e"
      using nn xs by (simp add: skills_gap_section_def js_member_def array_map_def)
    then show ?thesis using True np
      by (simp add: RoadmapDialog_def dialog_content_def roadmap_block_def roadmap_sections_def)
  qed
qed

lemma RoadmapDialog_renders:
  assumes "skills_plain (roadmap_of q)"
  shows "\<exists>v. RoadmapDialog DEV stringify props q = Inr v"
proof (cases "RoadmapDialog DEV stringify props q")
  case (Inl e)
  then have "\<exists>e. RoadmapDialog DEV stringify props q = Inl e" by blast
  then have "\<not> skills_plain (roadmap_of q)" by (simp add: RoadmapDialog_throws_iff)
  with assms show ?thesis by simp
next
  case (Inr v)
  then show ?thesis by blast
qed

text \<open>
  The earlier text of the dialog has no guard: on the response without \<^verbatim>\<open>certifications\<close>
  its certification section throws.
\<close>

lemma certifications_unguarded_throws:
  "certifications_unguarded example_roadmap =
     Inl (TypeError ''Cannot read properties of undefined, reading map'')"
  by (simp add: certifications_unguarded_def example_roadmap_def js_member_def array_map_def)

subsection \<open>What the framework can display\<close>
















subsection \<open>Missing and malformed fields\<close>




subsection \<open>Empty lists\<close>

lemma empty_as_missing_eq:
  "empty_as_missing a = empty_as_missing b \<Longrightarrow>
   a = b \<or> (a = JArr [] \<and> b = JUndefined) \<or> (a = JUndefined \<and> b = JArr [])"
  by (auto simp add: empty_as_missing_def split: if_splits)

lemma skills_same:
  assumes "\<not> nullish r" "\<not> nullish r'"
    "empty_as_missing (get_prop r ''skills_gap'') = empty_as_missing (get_prop r' ''skills_gap'')"
  shows "skills_gap_section r = skills_gap_section r'"
  using empty_as_missing_eq [OF assms(3)] assms(1,2)
  by (auto simp add: skills_gap_section_def js_member_def)

lemma path_same:
  assumes "\<not> nullish r" "\<not> nullish r'"
    "empty_as_missing (get_prop r ''learning_path'') = empty_as_missing (get_prop r' ''learning_path'')"
  shows "learning_path_section r = learning_path_section r'"
  using empty_as_missing_eq [OF assms(3)] assms(1,2)
  by (auto simp add: learning_path_section_def js_member_def)

lemma certs_same:
  assumes "\<not> nullish r" "\<not> nullish r'"
    "empty_as_missing (get_prop r ''certifications'') = empty_as_missing (get_prop r' ''certifications'')"
  shows "certifications_section r = certifications_section r'"
  using empty_as_missing_eq [OF assms(3)] assms(1,2)
  by (auto simp add: certifications_section_def js_member_def)

lemma projs_same:
  assumes "\<not> nullish r" "\<not> nullish r'"
    "empty_as_missing (get_prop r ''projects'') = empty_as_missing (get_prop r' ''projects'')"
  shows "projects_section r = projects_section r'"
  using empty_as_missing_eq [OF assms(3)] assms(1,2)
  by (auto simp add: projects_section_def js_member_def)

lemma production_dialog_same:
  assumes "truthy r" "truthy r'" "roadmap_sections r = roadmap_sections r'"
  shows "RoadmapDialog False stringify props (q\<lparr>data := Some r\<rparr>) =
         RoadmapDialog False stringify props (q\<lparr>data := Some r'\<rparr>)"
proof -
  have s: "shows_roadmap (q\<lparr>data := Some r\<rparr>) = shows_roadmap (q\<lparr>data := Some r'\<rparr>)"
    using assms(1,2) by (simp add: shows_roadmap_def isLoading_def isError_def roadmap_of_def)
  have l: "isLoading (q\<lparr>data := Some r\<rparr>) = isLoading (q\<lparr>data := Some r'\<rparr>)"
    "isError (q\<lparr>data := Some r\<rparr>) = isError (q\<lparr>data := Some r'\<rparr>)"
    by (simp_all add: isLoading_def isError_def)
  have e: "error (q\<lparr>data := Some r\<rparr>) = error (q\<lparr>data := Some r'\<rparr>)" by simp
  have g: "\<not> shows_roadmap (q\<lparr>data := Some r\<rparr>) \<Longrightarrow>
      guard_value (q\<lparr>data := Some r\<rparr>) = guard_value (q\<lparr>data := Some r'\<rparr>)"
    using assms(1,2)
    by (auto simp add: guard_value_def shows_roadmap_def isLoading_def isError_def roadmap_of_def)
  have b: "roadmap_block False stringify (q\<lparr>data := Some r\<rparr>) =
           roadmap_block False stringify (q\<lparr>data := Some r'\<rparr>)"
    unfolding roadmap_block_def js_and_def if_False
    using s g assms(3) by (simp add: roadmap_of_def)
  have c: "dialog_content False stringify (q\<lparr>data := Some r\<rparr>) =
           dialog_content False stringify (q\<lparr>data := Some r'\<rparr>)"
    unfolding dialog_content_def b l e by (rule refl)
  have a: "dialog_actions (q\<lparr>data := Some r\<rparr>) = dialog_actions (q\<lparr>data := Some r'\<rparr>)"
    using s l g by (simp add: dialog_actions_def close_button_def)
  show ?thesis unfolding RoadmapDialog_def c a by (rule refl)
qed

text \<open>
  C9. A section whose list is present and empty renders the same placeholder as a section
  whose list is missing, for each of the four sections; and two roadmaps that differ only in
  that (a list empty in one and absent in the other, in any of the four fields) have the same
  four sections, whether the rest renders or throws, and in a production build the whole
  dialog is the same for both. (A development build also prints the response itself in its
  debug box.)
\<close>

theorem empty_list_same_as_missing:
  assumes "truthy r" and "truthy r'"
    and "empty_as_missing (get_prop r ''skills_gap'') = empty_as_missing (get_prop r' ''skills_gap'')"
    and "empty_as_missing (get_prop r ''learning_path'') = empty_as_missing (get_prop r' ''learning_path'')"
    and "empty_as_missing (get_prop r ''certifications'') = empty_as_missing (get_prop r' ''certifications'')"
    and "empty_as_missing (get_prop r ''projects'') = empty_as_missing (get_prop r' ''projects'')"
  shows "roadmap_sections r = roadmap_sections r' \<and>
         RoadmapDialog False stringify props (q\<lparr>data := Some r\<rparr>) =
           RoadmapDialog False stringify props (q\<lparr>data := Some r'\<rparr>) \<and>
         (get_prop r ''skills_gap'' = JArr [] \<longrightarrow>
            skills_gap_section r = Inr [placeholder ''No skills gap data available'']) \<and>
         (get_prop r ''learning_path'' = JArr [] \<longrightarrow>
            learning_path_section r = Inr [placeholder ''No learning path data available'']) \<and>
         (get_prop r ''certifications'' = JArr [] \<longrightarrow>
            certifications_section r = Inr [placeholder ''No certification recommendations available'']) \<and>
         (get_prop r ''projects'' = JArr [] \<longrightarrow>
            projects_section r = Inr [placeholder ''No project suggestions available''])"
proof -
  have n: "\<not> nullish r" and n': "\<not> nullish r'"
    using assms(1,2) by (simp_all add: truthy_not_nullish)
  have same: "roadmap_sections r = roadmap_sections r'"
    unfolding roadmap_sections_def skills_same [OF n n' assms(3)] path_same [OF n n' assms(4)]
      certs_same [OF n n' assms(5)] projs_same [OF n n' assms(6)]
    by (rule refl)
  have "RoadmapDialog False stringify props (q\<lparr>data := Some r\<rparr>) =
      RoadmapDialog False stringify props (q\<lparr>data := Some r'\<rparr>)"
    using assms(1,2) same by (rule production_dialog_same)
  note same this
  moreover have "get_prop r ''skills_gap'' = JArr [] \<longrightarrow>
      skills_gap_section r = Inr [placeholder ''No skills gap data available'']"
    using n by (simp add: skills_gap_section_def js_member_def)
  moreover have "get_prop r ''learning_path'' = JArr [] \<longrightarrow>
      learning_path_section r = Inr [placeholder ''No learning path data available'']"
    using n by (simp add: learning_path_section_def js_member_def)
  moreover have "get_prop r ''certifications'' = JArr [] \<longrightarrow>
      certifications_section r = Inr [placeholder ''No certification recommendations available'']"
    using n by (simp add: certifications_section_def js_member_def)
  moreover have "get_prop r ''projects'' = JArr [] \<longrightarrow>
      projects_section r = Inr [placeholder ''No project suggestions available'']"
    using n by (simp add: projects_section_def js_member_def)
  ultimately show ?thesis by blast
qed

theorem empty_list_same_as_missing_witness:
  "truthy all_empty \<and> truthy (JObj []) \<and>
   get_prop all_empty ''skills_gap'' = JArr [] \<and> get_prop (JObj []) ''skills_gap'' = JUndefined \<and>
   get_prop all_empty ''learning_path'' = JArr [] \<and> get_prop (JObj []) ''learning_path'' = JUndefined \<and>
   get_prop all_empty ''certifications'' = JArr [] \<and> get_prop (JObj []) ''certifications'' = JUndefined \<and>
   get_prop all_empty ''projects'' = JArr [] \<and> get_prop (JObj []) ''projects'' = JUndefined \<and>
   roadmap_sections all_empty = roadmap_sections (JObj []) \<and>
   skills_gap_section all_empty = Inr [placeholder ''No skills gap data available''] \<and>
   learning_path_section all_empty = Inr [placeholder ''No learning path data available''] \<and>
   certifications_section all_empty = Inr [placeholder ''No certification recommendations available''] \<and>
   projects_section all_empty = Inr [placeholder ''No project suggestions available'']"
proof -
  have g: "get_prop all_empty ''skills_gap'' = JArr []" "get_prop (JObj []) ''skills_gap'' = JUndefined"
    "get_prop all_empty ''learning_path'' = JArr []" "get_prop (JObj []) ''learning_path'' = JUndefined"
    "get_prop all_empty ''certifications'' = JArr []" "get_prop (JObj []) ''certifications'' = JUndefined"
    "get_prop all_empty ''projects'' = JArr []" "get_prop (JObj []) ''projects'' = JUndefined"
    by (simp_all add: all_empty_def)
  have t: "truthy all_empty" "truthy (JObj [])" by (simp_all add: all_empty_def)
  have e: "empty_as_missing (get_prop all_empty ''skills_gap'') = empty_as_missing (get_prop (JObj []) ''skills_gap'')"
    "empty_as_missing (get_prop all_empty ''learning_path'') = empty_as_missing (get_prop (JObj []) ''learning_path'')"
    "empty_as_missing (get_prop all_empty ''certifications'') = empty_as_missing (get_prop (JObj []) ''certifications'')"
    "empty_as_missing (get_prop all_empty ''projects'') = empty_as_missing (get_prop (JObj []) ''projects'')"
    by (simp_all only: g empty_as_missing_def) simp_all
  show ?thesis
    using empty_list_same_as_missing [OF t e] g t by simp
qed

subsection \<open>The colour of a skill\<close>




text \<open>What the framework displays is the tree the component function returned.\<close>

lemma rendered_is_returned:
  "render_RoadmapDialog DEV stringify props q = Inr v \<Longrightarrow>
   RoadmapDialog DEV stringify props q = Inr v"
  by (auto simp add: render_RoadmapDialog_def react_render_def split: sum.splits if_splits)



text \<open>The same for a list that holds only strings.\<close>

lemma map_index_skill_strings:
  "map_index skill_item i (map JStr ss) =
     Inr (map (\<lambda>s. Elem ''Typography''
            [(''variant'', PStr ''body2''),
             (''sx.color'', PStr (if prefix ''Required:'' s then ''error.main'' else ''info.main''))]
            [Child (js_or (JStr s) (JStr ''Unknown skill''))]) ss)"
  by (induction ss arbitrary: i) (simp_all add: skill_item_def startsWith_opt_def)

lemma skills_gap_section_strings:
  assumes "ss \<noteq> []" "get_prop roadmap ''skills_gap'' = JArr (map JStr ss)" "\<not> nullish roadmap"
  shows "skills_gap_section roadmap =
     Inr (map (\<lambda>s. Elem ''Typography''
            [(''variant'', PStr ''body2''),
             (''sx.color'', PStr (if prefix ''Required:'' s then ''error.main'' else ''info.main''))]
            [Child (js_or (JStr s) (JStr ''Unknown skill''))]) ss)"
  using assms by (simp add: skills_gap_section_def js_member_def array_map_def map_index_skill_strings)

subsection \<open>The Close button\<close>

text \<open>The hook is loading exactly while a first request is under way, never once it has settled.\<close>

lemma use_query_not_loading: "\<not> isLoading (fst (use_query opts queryFn now cn))"
  by (cases cn) (simp add: use_query_def isLoading_def split: prod.splits sum.splits option.splits)

lemma in_flight_loading: "isLoading (in_flight opts cache) = (cache (queryKey opts) = None)"
  by (simp add: in_flight_def isLoading_def split: option.splits)

lemma example_failed_eq:
  "example_failed = \<lparr>data = None, status = Failed, fetchStatus = Idle, error = Some (Error ''Network Error'')\<rparr>"
  by (simp add: example_failed_def roadmap_query_def use_query_def should_fetch_def
      roadmap_query_options_def example_props_def roadmap_queryFn_def axios_def
      failing_server_def quiet_def numeral_2_eq_2)

lemma example_failed_sent:
  "sent (snd (snd (roadmap_query ''/api'' failing_server example_props 0 (Map.empty, quiet)))) =
     replicate 3 (roadmap_request ''/api'' example_props)"
  by (simp add: roadmap_query_def use_query_def should_fetch_def
      roadmap_query_options_def example_props_def roadmap_queryFn_def axios_def
      failing_server_def quiet_def numeral_2_eq_2 numeral_3_eq_3)

text \<open>
  C10. Whenever the dialog renders, the first action under \<^verbatim>\<open>DialogActions\<close> is the Close
  button, it closes the dialog, and it is disabled exactly while the query is loading. In
  the error view and in the view of the roadmap it is enabled, since neither is shown while
  loading.
\<close>

theorem close_disabled_while_loading:
  assumes "RoadmapDialog DEV stringify props q = Inr v"
  shows "actions_first_button v = Some (close_button q) \<and>
         attr_of (close_button q) ''onClick'' = Some (PAct OnClose) \<and>
         texts (close_button q) = [JStr ''Close''] \<and>
         disabled (close_button q) = isLoading q \<and>
         (isError q \<longrightarrow> \<not> disabled (close_button q)) \<and>
         (shows_roadmap q \<longrightarrow> \<not> disabled (close_button q))"
proof -
  from assms obtain content where
    "v = Elem ''Dialog'' [(''open'', PBool (is_open props)), (''onClose'', PAct OnClose)]
           [Elem ''DialogTitle'' [] [text_of ''Career Roadmap: '', text_of (jobTitle props)],
            Elem ''DialogContent'' [] content,
            Elem ''DialogActions'' [] (dialog_actions q)]"
    by (auto simp add: RoadmapDialog_def split: sum.splits)
  then have a: "actions_first_button v = Some (close_button q)"
    by (simp add: actions_first_button_def dialog_actions_def)
  have d: "disabled (close_button q) = isLoading q"
    by (simp add: disabled_def close_button_def)
  have e: "isError q \<longrightarrow> \<not> isLoading q" by (simp add: isError_def isLoading_def)
  have s: "shows_roadmap q \<longrightarrow> \<not> isLoading q" by (simp add: shows_roadmap_def)
  have c: "attr_of (close_button q) ''onClick'' = Some (PAct OnClose)"
    by (simp add: close_button_def)
  have t: "texts (close_button q) = [JStr ''Close'']"
    by (simp add: close_button_def text_of_def)
  from a c t d e s show ?thesis by blast
qed

theorem close_disabled_while_loading_witness:
  "(\<exists>v. RoadmapDialog False (\<lambda>v. []) example_props example_loading = Inr v \<and>
        actions_first_button v = Some (close_button example_loading) \<and>
        disabled (close_button example_loading)) \<and>
   (\<exists>v. RoadmapDialog False (\<lambda>v. []) example_props example_failed = Inr v \<and>
        isError example_failed \<and>
        actions_first_button v = Some (close_button example_failed) \<and>
        \<not> disabled (close_button example_failed)) \<and>
   (\<exists>v. RoadmapDialog False (\<lambda>v. []) example_props example_success = Inr v \<and>
        shows_roadmap example_success \<and>
        actions_first_button v = Some (close_button example_success) \<and>
        \<not> disabled (close_button example_success))"
proof -
  have l: "isLoading example_loading"
    by (simp add: example_loading_def in_flight_def isLoading_def)
  have f: "isError example_failed" by (simp add: example_failed_eq isError_def)
  have s: "shows_roadmap example_success"
    by (simp add: example_success_def example_roadmap_def shows_roadmap_def isLoading_def
        isError_def roadmap_of_def)
  obtain v1 where v1: "RoadmapDialog False (\<lambda>v. []) example_props example_loading = Inr v1"
    using l by (simp add: RoadmapDialog_def dialog_content_def roadmap_block_def shows_roadmap_def)
  obtain v2 where v2: "RoadmapDialog False (\<lambda>v. []) example_props example_failed = Inr v2"
    using f by (simp add: RoadmapDialog_def dialog_content_def roadmap_block_def shows_roadmap_def)
  obtain v3 where v3: "RoadmapDialog False (\<lambda>v. []) example_props example_success = Inr v3"
    using RoadmapDialog_renders [of example_success False "\<lambda>v. []" example_props]
    by (auto simp add: skills_plain_def roadmap_of_def example_success_def example_roadmap_def)
  show ?thesis
    using close_disabled_while_loading [OF v1] close_disabled_while_loading [OF v2]
      close_disabled_while_loading [OF v3] v1 v2 v3 l f s
    by blast
qed

section \<open>Properties of the roadmap query\<close>

lemma roadmap_queryFn_sent:
  "sent (snd (roadmap_queryFn API_URL srv props net)) = sent net @ [roadmap_request API_URL props]"
  by (simp add: roadmap_queryFn_def axios_def split: prod.splits sum.splits)

lemma fetch_retry_roadmap_sent:
  "\<exists>k\<le>n. sent (snd (fetch_retry n (roadmap_queryFn API_URL srv props) net)) =
          sent net @ replicate (Suc k) (roadmap_request API_URL props)"
proof (induction n arbitrary: net)
  case 0
  show ?case by (simp add: roadmap_queryFn_sent)
next
  case (Suc n)
  obtain r net' where f: "roadmap_queryFn API_URL srv props net = (r, net')"
    by (cases "roadmap_queryFn API_URL srv props net")
  then have s: "sent net' = sent net @ [roadmap_request API_URL props]"
    using roadmap_queryFn_sent [of API_URL srv props net] by simp
  show ?case
  proof (cases r)
    case (Inr d)
    then have "sent (snd (fetch_retry (Suc n) (roadmap_queryFn API_URL srv props) net)) =
      sent net @ replicate (Suc 0) (roadmap_request API_URL props)"
      using f s by simp
    then show ?thesis by blast
  next
    case (Inl e)
    obtain k where k: "k \<le> n"
      "sent (snd (fetch_retry n (roadmap_queryFn API_URL srv props) net')) =
         sent net' @ replicate (Suc k) (roadmap_request API_URL props)"
      using Suc.IH [of net'] by blast
    have "sent (snd (fetch_retry (Suc n) (roadmap_queryFn API_URL srv props) net)) =
      sent net @ replicate (Suc (Suc k)) (roadmap_request API_URL props)"
      using f Inl k(2) s by simp
    moreover have "Suc k \<le> Suc n" using k(1) by simp
    ultimately show ?thesis by blast
  qed
qed

lemma use_query_disabled:
  "\<not> enabled opts \<Longrightarrow> snd (use_query opts queryFn now (cache, net)) = (cache, net)"
  by (simp add: use_query_def should_fetch_def split: option.splits)

lemma use_query_fresh:
  "cache (queryKey opts) = Some e \<Longrightarrow> now < dataUpdatedAt e + staleTime opts \<Longrightarrow>
   use_query opts queryFn now (cache, net) =
     (\<lparr>data = Some (entry_data e), status = Success, fetchStatus = Idle, error = None\<rparr>, cache, net)"
  by (simp add: use_query_def should_fetch_def is_stale_def)

lemma use_query_fetched:
  assumes "use_query opts queryFn t0 (cache, net) = (q1, cache1, net1)"
    and "should_fetch opts cache t0" and "status q1 = Success"
  shows "\<exists>d. data q1 = Some d \<and> cache1 (queryKey opts) = Some \<lparr>entry_data = d, dataUpdatedAt = t0\<rparr>"
  using assms by (auto simp add: use_query_def split: prod.splits sum.splits)

text \<open>
  C3. The roadmap query is enabled exactly when the dialog is open and the resume
  identifier and the job title are both non-empty. In every other state observing the query
  leaves the cache and the network as they were: no request is sent. (When it is enabled and
  nothing is cached for the key, between one and three requests go out: the first and at
  most two retries.)
\<close>

theorem roadmap_fetch_enabled_iff:
  "enabled (roadmap_query_options props) =
     (is_open props \<and> resumeId props \<noteq> [] \<and> jobTitle props \<noteq> []) \<and>
   (\<not> (is_open props \<and> resumeId props \<noteq> [] \<and> jobTitle props \<noteq> []) \<longrightarrow>
      snd (roadmap_query API_URL srv props now (cache, net)) = (cache, net)) \<and>
   (is_open props \<and> resumeId props \<noteq> [] \<and> jobTitle props \<noteq> [] \<and>
    cache (queryKey (roadmap_query_options props)) = None \<longrightarrow>
      (\<exists>k\<le>2. sent (snd (snd (roadmap_query API_URL srv props now (cache, net)))) =
              sent net @ replicate (Suc k) (roadmap_request API_URL props)))"
proof -
  have en: "enabled (roadmap_query_options props) =
     (is_open props \<and> resumeId props \<noteq> [] \<and> jobTitle props \<noteq> [])"
    by (simp add: roadmap_query_options_def)
  have off: "\<not> (is_open props \<and> resumeId props \<noteq> [] \<and> jobTitle props \<noteq> []) \<longrightarrow>
      snd (roadmap_query API_URL srv props now (cache, net)) = (cache, net)"
  proof
    assume "\<not> (is_open props \<and> resumeId props \<noteq> [] \<and> jobTitle props \<noteq> [])"
    then have "\<not> enabled (roadmap_query_options props)" using en by simp
    then show "snd (roadmap_query API_URL srv props now (cache, net)) = (cache, net)"
      by (simp add: roadmap_query_def use_query_disabled)
  qed
  have on: "is_open props \<and> resumeId props \<noteq> [] \<and> jobTitle props \<noteq> [] \<and>
    cache (queryKey (roadmap_query_options props)) = None \<longrightarrow>
      (\<exists>k\<le>2. sent (snd (snd (roadmap_query API_URL srv props now (cache, net)))) =
              sent net @ replicate (Suc k) (roadmap_request API_URL props))"
  proof
    assume a: "is_open props \<and> resumeId props \<noteq> [] \<and> jobTitle props \<noteq> [] \<and>
      cache (queryKey (roadmap_query_options props)) = None"
    then have sf: "should_fetch (roadmap_query_options props) cache now"
      using en by (simp add: should_fetch_def)
    have r: "retry (roadmap_query_options props) = 2" by (simp add: roadmap_query_options_def)
    have "snd (snd (roadmap_query API_URL srv props now (cache, net))) =
        snd (fetch_retry 2 (roadmap_queryFn API_URL srv props) net)"
      using sf r by (simp add: roadmap_query_def use_query_def split: prod.splits sum.splits)
    then show "\<exists>k\<le>2. sent (snd (snd (roadmap_query API_URL srv props now (cache, net)))) =
              sent net @ replicate (Suc k) (roadmap_request API_URL props)"
      using fetch_retry_roadmap_sent [of 2 API_URL srv props net] by simp
  qed
  from en off on show ?thesis by blast
qed

theorem roadmap_fetch_enabled_iff_witness:
  "\<not> (is_open (example_props\<lparr>is_open := False\<rparr>) \<and> resumeId (example_props\<lparr>is_open := False\<rparr>) \<noteq> [] \<and>
      jobTitle (example_props\<lparr>is_open := False\<rparr>) \<noteq> []) \<and>
   snd (roadmap_query ''/api'' example_server (example_props\<lparr>is_open := False\<rparr>) 0 (Map.empty, quiet)) =
     (Map.empty, quiet) \<and>
   is_open example_props \<and> resumeId example_props \<noteq> [] \<and> jobTitle example_props \<noteq> [] \<and>
   (Map.empty :: jsval query_cache) (queryKey (roadmap_query_options example_props)) = None \<and>
   (\<exists>k\<le>2. sent (snd (snd (roadmap_query ''/api'' example_server example_props 0 (Map.empty, quiet)))) =
           sent quiet @ replicate (Suc k) (roadmap_request ''/api'' example_props))"
  using roadmap_fetch_enabled_iff [of "example_props\<lparr>is_open := False\<rparr>" "''/api''" example_server 0 Map.empty quiet]
    roadmap_fetch_enabled_iff [of example_props "''/api''" example_server 0 Map.empty quiet]
  by (simp add: example_props_def)

lemma roadmap_key_inj:
  "(queryKey (roadmap_query_options p) = queryKey (roadmap_query_options p')) =
   (resumeId p = resumeId p' \<and> jobTitle p = jobTitle p')"
  by (auto simp add: roadmap_query_options_def)

text \<open>
  C2. The roadmap is cached under the key \<^verbatim>\<open>['roadmap', resumeId, jobTitle]\<close> with a
  stale time of 300000 ms. After a fetch for a pair has succeeded at some time, observing
  the query for the same pair less than five minutes later (whatever has happened to other
  keys, and whether or not the backend would answer) serves the cached roadmap and leaves the
  network untouched: no second request.
\<close>

theorem roadmap_cached_five_minutes:
  assumes first: "roadmap_query API_URL srv props fetched_at (cache, net) = (shown, cached, sent_after)"
    and due: "should_fetch (roadmap_query_options props) cache fetched_at"
    and ok: "status shown = Success"
    and same: "resumeId props' = resumeId props" "jobTitle props' = jobTitle props"
    and kept: "cache_later (queryKey (roadmap_query_options props)) =
                 cached (queryKey (roadmap_query_options props))"
    and within: "now < fetched_at + 5 * 60 * 1000"
  shows "queryKey (roadmap_query_options props) =
           [JStr ''roadmap'', JStr (resumeId props), JStr (jobTitle props)] \<and>
         staleTime (roadmap_query_options props) = 300000 \<and>
         (\<exists>d. data shown = Some d \<and>
              cached (queryKey (roadmap_query_options props)) =
                Some \<lparr>entry_data = d, dataUpdatedAt = fetched_at\<rparr> \<and>
              roadmap_query API_URL srv' props' now (cache_later, net_later) =
                (\<lparr>data = Some d, status = Success, fetchStatus = Idle, error = None\<rparr>,
                 cache_later, net_later))"
proof -
  have key: "queryKey (roadmap_query_options props') = queryKey (roadmap_query_options props)"
    using same by (simp add: roadmap_query_options_def)
  have st: "staleTime (roadmap_query_options props') = 300000"
    by (simp add: roadmap_query_options_def)
  obtain d where d: "data shown = Some d"
    "cached (queryKey (roadmap_query_options props)) = Some \<lparr>entry_data = d, dataUpdatedAt = fetched_at\<rparr>"
    using use_query_fetched [OF first [unfolded roadmap_query_def] due ok] by blast
  have e: "cache_later (queryKey (roadmap_query_options props')) =
      Some \<lparr>entry_data = d, dataUpdatedAt = fetched_at\<rparr>"
    using d(2) kept key by simp
  have fresh: "now < dataUpdatedAt \<lparr>entry_data = d, dataUpdatedAt = fetched_at\<rparr> +
      staleTime (roadmap_query_options props')"
    using within st by simp
  have "roadmap_query API_URL srv' props' now (cache_later, net_later) =
      (\<lparr>data = Some d, status = Success, fetchStatus = Idle, error = None\<rparr>, cache_later, net_later)"
    unfolding roadmap_query_def using e fresh
    by (simp add: use_query_def should_fetch_def is_stale_def)
  then show ?thesis using d by (simp add: roadmap_query_options_def)
qed

lemma example_first_fetch:
  "roadmap_query ''/api'' example_server example_props 1000 (Map.empty, quiet) =
     (example_success,
      [queryKey (roadmap_query_options example_props) \<mapsto>
         \<lparr>entry_data = example_roadmap, dataUpdatedAt = 1000\<rparr>],
      \<lparr>backend = (), sent = [roadmap_request ''/api'' example_props]\<rparr>)"
  by (simp add: roadmap_query_def use_query_def should_fetch_def roadmap_query_options_def
      example_props_def roadmap_queryFn_def axios_def example_server_def quiet_def
      example_success_def numeral_2_eq_2)

theorem roadmap_cached_five_minutes_witness:
  "roadmap_query ''/api'' example_server example_props 1000 (Map.empty, quiet) =
     (example_success,
      [queryKey (roadmap_query_options example_props) \<mapsto>
         \<lparr>entry_data = example_roadmap, dataUpdatedAt = 1000\<rparr>],
      \<lparr>backend = (), sent = [roadmap_request ''/api'' example_props]\<rparr>) \<and>
   should_fetch (roadmap_query_options example_props) (Map.empty :: jsval query_cache) 1000 \<and>
   status example_success = Success \<and>
   (299000 :: nat) < 1000 + 5 * 60 * 1000 \<and>
   roadmap_query ''/api'' failing_server (example_props\<lparr>is_open := True\<rparr>) 299000
     ([queryKey (roadmap_query_options example_props) \<mapsto>
         \<lparr>entry_data = example_roadmap, dataUpdatedAt = 1000\<rparr>],
      \<lparr>backend = (), sent = [roadmap_request ''/api'' example_props]\<rparr>) =
     (example_success,
      [queryKey (roadmap_query_options example_props) \<mapsto>
         \<lparr>entry_data = example_roadmap, dataUpdatedAt = 1000\<rparr>],
      \<lparr>backend = (), sent = [roadmap_request ''/api'' example_props]\<rparr>)"
proof -
  have due: "should_fetch (roadmap_query_options example_props) (Map.empty :: jsval query_cache) 1000"
    by (simp add: should_fetch_def roadmap_query_options_def example_props_def)
  have ok: "status example_success = Success" by (simp add: example_success_def)
  have t: "(299000 :: nat) < 1000 + 5 * 60 * 1000" by simp
  show ?thesis
    using roadmap_cached_five_minutes [where API_URL = "''/api''" and srv = example_server
        and props = example_props and fetched_at = 1000 and cache = Map.empty and net = quiet
        and shown = example_success
        and cached = "[queryKey (roadmap_query_options example_props) \<mapsto>
                        \<lparr>entry_data = example_roadmap, dataUpdatedAt = 1000\<rparr>]"
        and sent_after = "\<lparr>backend = (), sent = [roadmap_request ''/api'' example_props]\<rparr>"
        and props' = "example_props\<lparr>is_open := True\<rparr>"
        and cache_later = "[queryKey (roadmap_query_options example_props) \<mapsto>
                        \<lparr>entry_data = example_roadmap, dataUpdatedAt = 1000\<rparr>]"
        and now = 299000 and srv' = failing_server
        and net_later = "\<lparr>backend = (), sent = [roadmap_request ''/api'' example_props]\<rparr>"]
      example_first_fetch due ok t
    by (simp add: example_success_def roadmap_query_options_def example_props_def)
qed

section \<open>Properties of the upload panel\<close>

text \<open>
  C7. With no file selected the submit button is disabled, a click on it does nothing, and
  the handler itself returns the state as it is: no request is sent. The button is also
  disabled while a request is outstanding. (With a file selected and nothing outstanding,
  a click sends exactly one upload request.)
\<close>

theorem no_file_no_upload_request:
  "(selected_file st = None \<longrightarrow>
      submit_disabled st \<and> handleUpload API_URL st = st \<and> click_submit API_URL st = st) \<and>
   (isPending st \<longrightarrow> submit_disabled st \<and> click_submit API_URL st = st) \<and>
   (selected_file st = Some f \<and> \<not> isPending st \<longrightarrow>
      \<not> submit_disabled st \<and>
      requests (click_submit API_URL st) =
        requests st @ [PostForm (API_URL @ ''/resume/upload'') [(''file'', f)]]) \<and>
   elems_named ''Button'' (ResumeUpload st) =
     [Elem ''Button''
        [(''variant'', PStr ''contained''), (''onClick'', PAct HandleUpload),
         (''disabled'', PBool (selected_file st = None \<or> isPending st))]
        [if isPending st then Elem ''CircularProgress'' [] [] else text_of ''Upload Resume'']]"
  by (simp add: submit_disabled_def handleUpload_def click_submit_def mutate_def
      ResumeUpload_def text_of_def js_and_def)

theorem no_file_no_upload_request_witness:
  "selected_file initial_upload = None \<and> submit_disabled initial_upload \<and>
   click_submit ''/api'' initial_upload = initial_upload \<and>
   requests (click_submit ''/api'' initial_upload) = [] \<and>
   isPending (click_submit ''/api'' (setFile (Some example_file) initial_upload)) \<and>
   click_submit ''/api'' (click_submit ''/api'' (setFile (Some example_file) initial_upload)) =
     click_submit ''/api'' (setFile (Some example_file) initial_upload) \<and>
   selected_file (setFile (Some example_file) initial_upload) = Some example_file \<and>
   \<not> isPending (setFile (Some example_file) initial_upload) \<and>
   requests (click_submit ''/api'' (setFile (Some example_file) initial_upload)) =
     [PostForm ''/api/resume/upload'' [(''file'', example_file)]]"
proof -
  have p: "isPending (click_submit ''/api'' (setFile (Some example_file) initial_upload))"
    by (simp add: click_submit_def submit_disabled_def isPending_def setFile_def
        initial_upload_def handleUpload_def mutate_def)
  have s: "selected_file (setFile (Some example_file) initial_upload) = Some example_file"
    by (simp add: setFile_def)
  have n: "\<not> isPending (setFile (Some example_file) initial_upload)"
    by (simp add: isPending_def setFile_def initial_upload_def)
  have i: "selected_file initial_upload = None" "requests initial_upload = []"
    by (simp_all add: initial_upload_def)
  show ?thesis
    using no_file_no_upload_request [of initial_upload "''/api''" example_file]
      no_file_no_upload_request
        [of "click_submit ''/api'' (setFile (Some example_file) initial_upload)" "''/api''" example_file]
      no_file_no_upload_request [of "setFile (Some example_file) initial_upload" "''/api''" example_file]
      p s n i
    by (simp add: setFile_def initial_upload_def)
qed

lemma upload_failure_no_callback:
  "onUploadSuccess_calls (settle (Inl e) st) = onUploadSuccess_calls st \<and>
   mutation (settle (Inl e) st) = MError"
  by (simp add: settle_def)

lemma upload_click_no_callback:
  "onUploadSuccess_calls (click_submit API_URL st) = onUploadSuccess_calls st"
  by (simp add: click_submit_def handleUpload_def mutate_def split: option.splits)

text \<open>
  C8. When the upload succeeds with a body that has a field \<^verbatim>\<open>id\<close>, the completion callback
  is called exactly once more, with the value of that field; the response \<^verbatim>\<open>{id: "abc"}\<close>
  to the first upload calls it once with \<^verbatim>\<open>"abc"\<close>.
\<close>

theorem upload_success_calls_back_once:
  assumes "map_of body ''id'' = Some v"
  shows "onUploadSuccess_calls (settle (Inr (JObj body)) st) = onUploadSuccess_calls st @ [v] \<and>
         mutation (settle (Inr (JObj body)) st) = MSuccess \<and>
         requests (settle (Inr (JObj body)) st) = requests st"
  using assms by (simp add: settle_def onSuccess_def js_member_def Let_def)

theorem upload_success_calls_back_once_witness:
  "map_of [(''id'', JStr ''abc'')] ''id'' = Some (JStr ''abc'') \<and>
   onUploadSuccess_calls
     (settle (Inr (JObj [(''id'', JStr ''abc'')]))
        (click_submit ''/api'' (setFile (Some example_file) initial_upload))) = [JStr ''abc'']"
proof -
  have m: "map_of [(''id'', JStr ''abc'')] ''id'' = Some (JStr ''abc'')" by simp
  show ?thesis
    using upload_success_calls_back_once [OF m,
        of "click_submit ''/api'' (setFile (Some example_file) initial_upload)"] m
    by (simp add: upload_click_no_callback setFile_def initial_upload_def)
qed

section \<open>Properties of the match list\<close>

text \<open>
  The product of doubles in examples: 0.73 times 100 is 73, but 0.57 times 100 is the double
  just below 57.
\<close>

lemma double_product_examples:
  "js_mul (to_double (73 / 100)) (Fin 100) = Fin 73"
  "js_mul (to_double (3 / 2)) (Fin 100) = Fin 150"
  "js_mul (to_double (- 1 / 5)) (Fin 100) = Fin (- 20)"
  "js_mul (to_double (57 / 100)) (Fin 100) = Fin (8022036836253695 / 140737488355328)"
  by code_simp+

lemma double_product_rounds: "js_mul (to_double (57 / 100)) (Fin 100) \<noteq> Fin 57"
  by (simp add: double_product_examples)

lemma progress_of_cards:
  "concat (map (elems_named ''LinearProgress'') (map job_card jobs)) =
     map (\<lambda>job. Elem ''LinearProgress''
            [(''variant'', PStr ''determinate''),
             (''value'', PNum (js_mul (score job) (Fin 100)))] []) jobs"
  by (induction jobs) (simp_all add: job_card_def text_of_def)

lemma cards_of_cards:
  "concat (map (elems_named ''Card'') (map job_card jobs)) = map job_card jobs"
  by (induction jobs) (simp_all add: job_card_def text_of_def)

lemma texts_job_card:
  "texts (job_card job) =
     [JStr (title job), JStr (company job), JStr ''Match Score'', JStr (match_percentage job),
      JStr ''View Career Roadmap'']"
  by (simp add: job_card_def text_of_def)

text \<open>
  C5. When the list of matches is shown, there is one card per match, in order; the progress
  bar of a card gets the product of the score and 100 as the program computes it (the double
  product: 73 for 0.73, 150 for 1.5, -20 for -0.2, so nothing is clamped or checked), and the
  texts of the card are the title, the company, the label, the percentage string of the
  backend as it is, and the label of the button: no text is computed from the score.
\<close>

theorem progress_value_is_score_times_100:
  assumes "r \<noteq> []" and "\<not> isLoading q" and "error q = None" and "data q = Some jobs"
  shows "(\<exists>v. JobList (Some r) selectedJob q = Some v \<and>
              map (\<lambda>e. attr_of e ''value'') (elems_named ''LinearProgress'' v) =
                map (\<lambda>job. Some (PNum (js_mul (score job) (Fin 100)))) jobs \<and>
              map texts (elems_named ''Card'' v) =
                map (\<lambda>job. [JStr (title job), JStr (company job), JStr ''Match Score'',
                             JStr (match_percentage job), JStr ''View Career Roadmap'']) jobs) \<and>
         js_mul (to_double (73 / 100)) (Fin 100) = Fin 73 \<and>
         js_mul (to_double (3 / 2)) (Fin 100) = Fin 150 \<and>
         js_mul (to_double (- 1 / 5)) (Fin 100) = Fin (- 20)"
proof -
  have "\<exists>v. JobList (Some r) selectedJob q = Some v \<and>
              map (\<lambda>e. attr_of e ''value'') (elems_named ''LinearProgress'' v) =
                map (\<lambda>job. Some (PNum (js_mul (score job) (Fin 100)))) jobs \<and>
              map texts (elems_named ''Card'' v) =
                map (\<lambda>job. [JStr (title job), JStr (company job), JStr ''Match Score'',
                             JStr (match_percentage job), JStr ''View Career Roadmap'']) jobs"
  proof (cases jobs)
    case Nil
    with assms show ?thesis by (simp add: JobList_def no_jobs_message_def text_of_def)
  next
    case (Cons j js)
    let ?v = "Elem ''Box'' []
                 [Elem ''RoadmapDialog''
                    [(''open'', PBool (truthy (js_of selectedJob))),
                     (''onClose'', PAct OnClose),
                     (''resumeId'', PStr r),
                     (''jobTitle'', PStr (case selectedJob of None \<Rightarrow> [] | Some t \<Rightarrow> t))]
                    [],
                  Elem ''Typography'' [(''variant'', PStr ''h5'')] [text_of ''Matching Jobs''],
                  Elem ''Box'' [(''className'', PStr ''job-list'')] (map job_card jobs)]"
    have v: "JobList (Some r) selectedJob q = Some ?v"
      using assms Cons by (simp add: JobList_def)
    have p: "elems_named ''LinearProgress'' ?v =
        map (\<lambda>job. Elem ''LinearProgress''
               [(''variant'', PStr ''determinate''),
                (''value'', PNum (js_mul (score job) (Fin 100)))] []) jobs"
      by (simp add: text_of_def progress_of_cards del: map_map)
    have c: "elems_named ''Card'' ?v = map job_card jobs"
      by (simp add: text_of_def cards_of_cards del: map_map)
    have "map (\<lambda>e. attr_of e ''value'') (elems_named ''LinearProgress'' ?v) =
        map (\<lambda>job. Some (PNum (js_mul (score job) (Fin 100)))) jobs"
      unfolding p by (simp add: comp_def)
    moreover have "map texts (elems_named ''Card'' ?v) =
        map (\<lambda>job. [JStr (title job), JStr (company job), JStr ''Match Score'',
                     JStr (match_percentage job), JStr ''View Career Roadmap'']) jobs"
      unfolding c by (simp add: comp_def texts_job_card)
    ultimately show ?thesis using v by blast
  qed
  then show ?thesis using double_product_examples(1,2,3) by blast
qed

theorem progress_value_is_score_times_100_witness:
  "''r1'' \<noteq> [] \<and> \<not> isLoading (shown_jobs [example_job]) \<and> error (shown_jobs [example_job]) = None \<and>
   data (shown_jobs [example_job]) = Some [example_job] \<and>
   (\<exists>v. JobList (Some ''r1'') None (shown_jobs [example_job]) = Some v \<and>
        map (\<lambda>e. attr_of e ''value'') (elems_named ''LinearProgress'' v) = [Some (PNum (Fin 73))] \<and>
        map texts (elems_named ''Card'' v) =
          [[JStr ''Data Analyst'', JStr ''Acme'', JStr ''Match Score'', JStr ''73%'',
            JStr ''View Career Roadmap'']])"
proof -
  have a: "''r1'' \<noteq> []" "\<not> isLoading (shown_jobs [example_job])"
    "error (shown_jobs [example_job]) = None" "data (shown_jobs [example_job]) = Some [example_job]"
    by (simp_all add: shown_jobs_def isLoading_def)
  have s: "js_mul (score example_job) (Fin 100) = Fin 73"
    by (simp add: example_job_def double_product_examples)
  have f: "title example_job = ''Data Analyst''" "company example_job = ''Acme''"
    "match_percentage example_job = ''73%''"
    by (simp_all add: example_job_def)
  show ?thesis
    using progress_value_is_score_times_100 [OF a, of None] a s f by simp
qed

text \<open>
  C6. When the matches have arrived and are the empty array, the list shows the heading and
  the message that no matching jobs were found, and no card. Without a resume identifier the
  component returns nothing, the query is disabled (it is enabled exactly for a non-empty
  identifier), observing it sends nothing, and the query function itself returns the empty
  list without a request: a request for matches implies an identifier.
\<close>

theorem empty_matches_message:
  "(r \<noteq> [] \<and> \<not> isLoading q \<and> error q = None \<and> data q = Some [] \<longrightarrow>
      (\<exists>v. JobList (Some r) selectedJob q = Some v \<and>
           texts v = [JStr ''Matching Jobs'',
                      JStr ''No matching jobs found. Please try uploading a different resume.''] \<and>
           elems_named ''Card'' v = [])) \<and>
   JobList None selectedJob q = None \<and>
   enabled (jobs_query_options resumeId') = (\<exists>r. resumeId' = Some r \<and> r \<noteq> []) \<and>
   jobs_queryFn API_URL srv None net = (Inr [], net) \<and>
   snd (jobs_query API_URL srv None now (cache, net)) = (cache, net) \<and>
   (sent (snd (jobs_queryFn API_URL srv resumeId' net)) \<noteq> sent net \<longrightarrow> resumeId' \<noteq> None)"
proof -
  have 1: "r \<noteq> [] \<and> \<not> isLoading q \<and> error q = None \<and> data q = Some [] \<longrightarrow>
      (\<exists>v. JobList (Some r) selectedJob q = Some v \<and>
           texts v = [JStr ''Matching Jobs'',
                      JStr ''No matching jobs found. Please try uploading a different resume.''] \<and>
           elems_named ''Card'' v = [])"
    by (simp add: JobList_def no_jobs_message_def text_of_def)
  have 2: "JobList None selectedJob q = None" by (simp add: JobList_def)
  have 3: "enabled (jobs_query_options resumeId') = (\<exists>r. resumeId' = Some r \<and> r \<noteq> [])"
    by (cases resumeId') (simp_all add: jobs_query_options_def)
  have 4: "jobs_queryFn API_URL srv None net = (Inr [], net)" by (simp add: jobs_queryFn_def)
  have 5: "snd (jobs_query API_URL srv None now (cache, net)) = (cache, net)"
    by (simp add: jobs_query_def use_query_disabled jobs_query_options_def)
  have 6: "sent (snd (jobs_queryFn API_URL srv resumeId' net)) \<noteq> sent net \<longrightarrow> resumeId' \<noteq> None"
    by (cases resumeId') (auto simp add: jobs_queryFn_def)
  from 1 2 3 4 5 6 show ?thesis by blast
qed

theorem empty_matches_message_witness:
  "''r1'' \<noteq> [] \<and> \<not> isLoading (shown_jobs []) \<and> error (shown_jobs []) = None \<and>
   data (shown_jobs []) = Some [] \<and>
   (\<exists>v. JobList (Some ''r1'') None (shown_jobs []) = Some v \<and>
        texts v = [JStr ''Matching Jobs'',
                   JStr ''No matching jobs found. Please try uploading a different resume.''] \<and>
        elems_named ''Card'' v = []) \<and>
   sent (snd (jobs_queryFn ''/api'' example_jobs_server (Some ''r1'') quiet)) \<noteq> sent quiet \<and>
   Some ''r1'' \<noteq> None \<and>
   jobs_query ''/api'' example_jobs_server (Some ''r1'') 0 (Map.empty, quiet) =
     (shown_jobs [],
      [queryKey (jobs_query_options (Some ''r1'')) \<mapsto> \<lparr>entry_data = [], dataUpdatedAt = 0\<rparr>],
      \<lparr>backend = (), sent = [Get ''/api/jobs/match/r1'']\<rparr>)"
proof -
  have a: "\<not> isLoading (shown_jobs [])" "error (shown_jobs []) = None" "data (shown_jobs []) = Some []"
    by (simp_all add: shown_jobs_def isLoading_def)
  have b: "sent (snd (jobs_queryFn ''/api'' example_jobs_server (Some ''r1'') quiet)) \<noteq> sent quiet"
    by (simp add: jobs_queryFn_def axios_def example_jobs_server_def quiet_def)
  have c: "jobs_query ''/api'' example_jobs_server (Some ''r1'') 0 (Map.empty, quiet) =
     (shown_jobs [],
      [queryKey (jobs_query_options (Some ''r1'')) \<mapsto> \<lparr>entry_data = [], dataUpdatedAt = 0\<rparr>],
      \<lparr>backend = (), sent = [Get ''/api/jobs/match/r1'']\<rparr>)"
    by (simp add: jobs_query_def use_query_def should_fetch_def jobs_query_options_def
        jobs_queryFn_def axios_def example_jobs_server_def quiet_def shown_jobs_def numeral_3_eq_3)
  show ?thesis
    using empty_matches_message [of "''r1''" "shown_jobs []" None "Some ''r1''" "''/api''"
        example_jobs_server quiet 0 Map.empty] a b c
    by simp
qed

end
